theory Spec2Isabelle
  imports Complex_Main
begin

section \<open>Values of the front end (static/js/main.js)\<close>

text \<open>
  The script handles values that arrive as JSON (Socket.IO payloads, bodies of HTTP
  responses, snapshots of the Realtime Database). They are modelled by one datatype.
  A number is a real: only comparisons with zero and with each other are made on numbers,
  and NaN is not a JSON value. An object is an association list; the first binding of a
  key is the one that is read.
\<close>

datatype jsval =
    JUndefined
  | JNull
  | JBool bool
  | JNum real
  | JStr string
  | JArr "jsval list"
  | JObj "(string \<times> jsval) list"

text \<open>The truth value of a value in a condition, under \<open>&&\<close>, \<open>||\<close> and \<open>!\<close>.\<close>

fun truthy :: "jsval \<Rightarrow> bool" where
  "truthy JUndefined = False"
| "truthy JNull = False"
| "truthy (JBool b) = b"
| "truthy (JNum n) = (n \<noteq> 0)"
| "truthy (JStr s) = (s \<noteq> [])"
| "truthy (JArr xs) = True"
| "truthy (JObj kvs) = True"

text \<open>\<open>null\<close> and \<open>undefined\<close>: reading a property of either throws a TypeError.\<close>

fun nullish :: "jsval \<Rightarrow> bool" where
  "nullish JUndefined = True"
| "nullish JNull = True"
| "nullish v = False"

text \<open>
  \<open>v.k\<close> for a value \<open>v\<close> that is neither \<open>null\<close> nor \<open>undefined\<close> and a key \<open>k\<close>
  that no prototype defines (\<open>label\<close>, \<open>detections\<close>, \<open>role\<close>, \<open>camerasActive\<close>, ...):
  the own property of an object, \<open>undefined\<close> on anything else.
\<close>

fun js_prop :: "jsval \<Rightarrow> string \<Rightarrow> jsval" where
  "js_prop (JObj kvs) k = (case map_of kvs k of Some v \<Rightarrow> v | None \<Rightarrow> JUndefined)"
| "js_prop v k = JUndefined"

fun isArray :: "jsval \<Rightarrow> bool" where
  "isArray (JArr xs) = True"
| "isArray v = False"

text \<open>\<open>a ?? b\<close>: the right operand when the left one is \<open>null\<close> or \<open>undefined\<close>.\<close>

definition coalesce :: "jsval \<Rightarrow> jsval \<Rightarrow> jsval" where
  "coalesce a b = (if nullish a then b else a)"

text \<open>
  The values whose conversion to a string or to a number throws a TypeError. The
  conversion of an object (\<open>String(v)\<close>, \<open>Number(v)\<close>, a template literal, \<open>+\<close>,
  \<open>*\<close>, an assignment to \<open>textContent\<close>) calls its \<open>toString\<close> and \<open>valueOf\<close>;
  \<open>valueOf\<close> of a plain object returns the object, so the conversion ends with
  \<open>toString\<close>. A JSON object with a key \<open>toString\<close> has there a value that cannot be
  called, and the engine throws. An array is converted by \<open>join\<close>, which converts
  every element but \<open>null\<close> and \<open>undefined\<close>.
\<close>

fun unprintable :: "jsval \<Rightarrow> bool" where
  "unprintable (JObj kvs) = (''toString'' \<in> set (map fst kvs))"
| "unprintable (JArr xs) = list_ex unprintable xs"
| "unprintable v = False"

text \<open>
  A thrown value. The script reads nothing but \<open>message\<close> from what it catches.
  \<open>Error m\<close> is \<open>new Error(m)\<close> and every rejection of a browser or Firebase call;
  \<open>TypeError m\<close> is raised by the engine when a property of \<open>null\<close> or
  \<open>undefined\<close> is read or a value that is no function is called.
\<close>

datatype js_error = Error string | TypeError string

fun message :: "js_error \<Rightarrow> string" where
  "message (Error m) = m"
| "message (TypeError m) = m"

text \<open>\<open>String(n)\<close> for an integer \<open>n\<close>: its decimal digits.\<close>

definition digit_char :: "nat \<Rightarrow> char" where
  "digit_char d =
     (if d = 0 then CHR ''0'' else if d = 1 then CHR ''1'' else if d = 2 then CHR ''2''
      else if d = 3 then CHR ''3'' else if d = 4 then CHR ''4'' else if d = 5 then CHR ''5''
      else if d = 6 then CHR ''6'' else if d = 7 then CHR ''7'' else if d = 8 then CHR ''8''
      else CHR ''9'')"

fun String_nat :: "nat \<Rightarrow> string" where
  "String_nat n = (if n < 10 then [digit_char n] else String_nat (n div 10) @ [digit_char (n mod 10)])"

definition String_int :: "int \<Rightarrow> string" where
  "String_int i = (if i < 0 then CHR ''-'' # String_nat (nat (- i)) else String_nat (nat i))"

section \<open>The siren\<close>

text \<open>
  \<^verbatim>\<open>const HIGH_LABELS = new Set(['weapons', 'weapon', 'other_coverings', 'otherCoverings', 'other_Coverings']);\<close>
  \<^verbatim>\<open>let lastSirenAt = 0;  const SIREN_COOLDOWN_MS = 3000;\<close>
\<close>

definition HIGH_LABELS :: "string list" where
  "HIGH_LABELS = [''weapons'', ''weapon'', ''other_coverings'', ''otherCoverings'', ''other_Coverings'']"

definition SIREN_COOLDOWN_MS :: int where
  "SIREN_COOLDOWN_MS = 3000"

text \<open>\<open>HIGH_LABELS.has(v)\<close>: only a string can be a member of a set of strings.\<close>

fun HIGH_LABELS_has :: "jsval \<Rightarrow> bool" where
  "HIGH_LABELS_has (JStr s) = (s \<in> set HIGH_LABELS)"
| "HIGH_LABELS_has v = False"

text \<open>\<open>d && d.label && HIGH_LABELS.has(d.label)\<close>, the test made on the payload and on each detection.\<close>

definition high_label :: "jsval \<Rightarrow> bool" where
  "high_label d = (truthy d \<and> truthy (js_prop d ''label'') \<and> HIGH_LABELS_has (js_prop d ''label''))"

text \<open>The value of \<open>isHigh\<close> when the two branches of maybePlaySiren have run.\<close>

definition isHigh :: "jsval \<Rightarrow> bool" where
  "isHigh payload =
     (if high_label payload then True
      else if truthy payload \<and> isArray (js_prop payload ''detections'') then
        (case js_prop payload ''detections'' of
           JArr ds \<Rightarrow> list_ex high_label ds
         | _ \<Rightarrow> False)
      else False)"

text \<open>
  \<open>maybePlaySiren sirenEl now payload lastSirenAt\<close>: \<open>sirenEl\<close> says whether the page has
  the audio element, \<open>now\<close> is the value \<open>Date.now()\<close> returns. The result is whether
  \<open>sirenEl.play()\<close> was called, and the new value of \<open>lastSirenAt\<close>.
\<close>

definition maybePlaySiren :: "bool \<Rightarrow> int \<Rightarrow> jsval \<Rightarrow> int \<Rightarrow> bool \<times> int" where
  "maybePlaySiren sirenEl now payload lastSirenAt =
     (if \<not> sirenEl then (False, lastSirenAt)
      else if \<not> isHigh payload then (False, lastSirenAt)
      else if now - lastSirenAt < SIREN_COOLDOWN_MS then (False, lastSirenAt)
      else (True, now))"

text \<open>
  A run of calls, each with the clock value it reads and its payload, from a given
  \<open>lastSirenAt\<close>: the clock values of the calls that started the siren, in order.
\<close>

fun siren_plays :: "bool \<Rightarrow> int \<Rightarrow> (int \<times> jsval) list \<Rightarrow> int list" where
  "siren_plays sirenEl lastSirenAt [] = []"
| "siren_plays sirenEl lastSirenAt ((now, payload) # calls) =
     (case maybePlaySiren sirenEl now payload lastSirenAt of
        (True, lastSirenAt') \<Rightarrow> now # siren_plays sirenEl lastSirenAt' calls
      | (False, lastSirenAt') \<Rightarrow> siren_plays sirenEl lastSirenAt' calls)"

section \<open>Routing\<close>

datatype page =
    AdminDashboard | AdminAlerts | AdminActivity | AdminCameras | AdminSettings
  | PersonnelDashboard | PersonnelSettings

text \<open>What one run of \<open>route()\<close> ends with: \<open>showLogin()\<close>, a page renderer, or an assignment to \<open>location.hash\<close>.\<close>

datatype route_action = ShowLogin | Render page | SetLocationHash string

text \<open>
  \<open>route location_hash currentUser currentRole\<close>. The signed-in user is \<open>None\<close> when
  \<open>currentUser\<close> is \<open>null\<close>. \<open>currentRole\<close> is whatever resolveRole returned, or
  \<open>null\<close>; \<open>currentRole === 'admin'\<close> holds for the string \<open>admin\<close> only.
\<close>

definition route :: "string \<Rightarrow> 'u option \<Rightarrow> jsval \<Rightarrow> route_action" where
  "route location_hash currentUser currentRole =
     (let hash = (if location_hash \<noteq> [] then location_hash else ''#/login'') in
      if currentUser = None then ShowLogin
      else if hash = ''#/admin/dashboard'' \<and> currentRole = JStr ''admin'' then Render AdminDashboard
      else if hash = ''#/admin/alerts'' \<and> currentRole = JStr ''admin'' then Render AdminAlerts
      else if hash = ''#/admin/activity'' \<and> currentRole = JStr ''admin'' then Render AdminActivity
      else if hash = ''#/admin/cameras'' \<and> currentRole = JStr ''admin'' then Render AdminCameras
      else if hash = ''#/admin/settings'' \<and> currentRole = JStr ''admin'' then Render AdminSettings
      else if hash = ''#/personnel/dashboard'' \<and> currentRole = JStr ''personnel'' then Render PersonnelDashboard
      else if hash = ''#/personnel/settings'' \<and> currentRole = JStr ''personnel'' then Render PersonnelSettings
      else SetLocationHash (if currentRole = JStr ''admin'' then ''#/admin/dashboard'' else ''#/personnel/dashboard''))"

text \<open>The renderers named \<open>renderAdmin...\<close> and \<open>renderPersonnel...\<close> in the script.\<close>

fun admin_renderer :: "page \<Rightarrow> bool" where
  "admin_renderer AdminDashboard = True"
| "admin_renderer AdminAlerts = True"
| "admin_renderer AdminActivity = True"
| "admin_renderer AdminCameras = True"
| "admin_renderer AdminSettings = True"
| "admin_renderer PersonnelDashboard = False"
| "admin_renderer PersonnelSettings = False"

text \<open>The hash each page is served at, as the sidebar links and the comparisons in \<open>route\<close> write it.\<close>

fun page_hash :: "page \<Rightarrow> string" where
  "page_hash AdminDashboard = ''#/admin/dashboard''"
| "page_hash AdminAlerts = ''#/admin/alerts''"
| "page_hash AdminActivity = ''#/admin/activity''"
| "page_hash AdminCameras = ''#/admin/cameras''"
| "page_hash AdminSettings = ''#/admin/settings''"
| "page_hash PersonnelDashboard = ''#/personnel/dashboard''"
| "page_hash PersonnelSettings = ''#/personnel/settings''"

section \<open>Effects\<close>

text \<open>
  What a function of the script does to the outside is written as a list of effects, in
  the order of the calls in its body. Writes to the page that only show data (pills,
  list items, table rows, visibility of sidebar links, the theme and cursor helpers) are
  not listed. A call of an async function whose promise is not awaited is the effect
  \<open>Spawn\<close>; what that function does is the model of its own task. A function with
  several \<open>await\<close>s is modelled as one step. The HTML of the page is not part of
  the sources: the elements the script uses without a guard (the content element, the
  sidebar in \<open>route\<close>, the templates and their forms) are taken to exist, and those it
  guards are boolean parameters.
\<close>

datatype http_method = GET | POST

datatype console_level = Log | Debug | Err

datatype logarg = Text string | Thrown js_error

text \<open>The functions of the script that are registered as handlers or timers, or called without \<open>await\<close>.\<close>

datatype task =
    Route | AuthStateChanged | Logout | BeforeUnload | PendingDetection | HighThreat
  | LoginSubmit | Renderer page | CheckAndSwap | ImgError | StartBrowserCamera | SendFrame
  | AdminStatusPoll | PersonnelStatusPoll | Verify | Dismiss | AddCamera | SaveLanguage
  | AddUser | ChangePassword

datatype effect =
    Alert string
  | Console console_level "logarg list"
  | Fetch http_method string
  | SendBeacon string
  | ImgSrc string
  | DbGet string
  | DbSet string jsval
  | DbRemove string
  | DbOnDisconnectRemove string
  | SignOut
  | SocketConnect string
  | SocketOn string task
  | Listen task
  | Spawn task
  | SetInterval task nat
  | SetTimeout task nat
  | ClearPageIntervals
  | SetContent string
  | SetHash string
  | ShowLoader bool
  | SidebarVisible bool
  | MenuToggleVisible bool
  | SirenPlay

text \<open>
  The TypeError of the engine. Its wording differs between engines and is never empty;
  the script shows it only through \<open>message\<close>.
\<close>

definition engine_TypeError :: js_error where
  "engine_TypeError = TypeError ''TypeError''"

section \<open>The request helper\<close>

text \<open>
  What \<open>fetch\<close> resolves to, as far as \<open>api\<close> reads it: \<open>res.ok\<close>, \<open>res.status\<close>,
  and the outcomes of \<open>res.text()\<close> and \<open>res.json()\<close> (\<open>Inl\<close> is a rejection).
\<close>

record response =
  ok :: bool
  status :: nat
  text_result :: "js_error + string"
  json_result :: "js_error + jsval"

text \<open>
  What the outside answers during one call of \<open>api\<close>: \<open>getIdToken\<close> is \<open>None\<close> when
  \<open>auth.currentUser\<close> is \<open>null\<close>, otherwise the outcome of
  \<open>auth.currentUser.getIdToken(true)\<close>; \<open>fetched\<close> is the outcome of \<open>fetch\<close>.
\<close>

record api_env =
  getIdToken :: "(js_error + string) option"
  fetched :: "js_error + response"

definition refreshIdToken :: "(js_error + string) option \<Rightarrow> js_error + string option" where
  "refreshIdToken tok =
     (case tok of
        None \<Rightarrow> Inr None
      | Some (Inl e) \<Rightarrow> Inl e
      | Some (Inr t) \<Rightarrow> Inr (Some t))"

text \<open>
  The error thrown for a response that is not ok:
  \<^verbatim>\<open>const text = await res.text().catch(()=>String(res.status));\<close>
  \<^verbatim>\<open>throw new Error(text || ('HTTP ' + res.status));\<close>
\<close>

definition not_ok_error :: "response \<Rightarrow> js_error" where
  "not_ok_error res =
     (let text = (case text_result res of Inl e \<Rightarrow> String_nat (status res) | Inr t \<Rightarrow> t)
      in Error (if text \<noteq> [] then text else ''HTTP '' @ String_nat (status res)))"

text \<open>
  \<open>api method path env\<close>: the requests made and what the promise of
  \<open>api(path, options)\<close> settles to. \<open>method\<close> is \<open>options.method\<close>, GET when the
  options have none.
\<close>

definition api :: "http_method \<Rightarrow> string \<Rightarrow> api_env \<Rightarrow> effect list \<times> (js_error + jsval)" where
  "api method path env =
     (case refreshIdToken (getIdToken env) of
        Inl e \<Rightarrow> ([], Inl e)
      | Inr token \<Rightarrow>
          ([Fetch method path],
           (case fetched env of
              Inl e \<Rightarrow> Inl e
            | Inr res \<Rightarrow> if \<not> ok res then Inl (not_ok_error res) else json_result res)))"

section \<open>Session state and sign-in\<close>

text \<open>
  The globals of the script that its functions read and write: \<open>currentUser\<close> (the uid
  of the signed-in user, \<open>None\<close> for \<open>null\<close>), \<open>currentRole\<close>,
  \<open>adminPresenceRef\<close> (the path of the database reference, \<open>None\<close> for \<open>null\<close>)
  and \<open>lastSirenAt\<close>.
\<close>

record app =
  currentUser :: "string option"
  currentRole :: jsval
  adminPresenceRef :: "string option"
  lastSirenAt :: int

definition init_app :: app where
  "init_app = \<lparr>currentUser = None, currentRole = JNull, adminPresenceRef = None, lastSirenAt = 0\<rparr>"

text \<open>\<open>showLogin()\<close>. The submit handler of the form is \<open>loginSubmit\<close>.\<close>

definition showLogin :: "effect list" where
  "showLogin =
     [ClearPageIntervals, SidebarVisible False, MenuToggleVisible False,
      SetContent ''loginTpl'', Listen LoginSubmit]"

text \<open>The argument is the outcome of \<open>auth.signInWithEmailAndPassword(email, password)\<close>.\<close>

definition loginSubmit :: "js_error + unit \<Rightarrow> effect list \<times> (js_error + unit)" where
  "loginSubmit signIn =
     ([ShowLoader True]
      @ (case signIn of Inl err \<Rightarrow> [Alert (message err)] | Inr u \<Rightarrow> [])
      @ [ShowLoader False],
      Inr ())"

text \<open>
  \<open>resolveRole uid snap\<close>: \<open>snap\<close> is the outcome of \<open>rtdb.ref('/users/' + uid).get()\<close>,
  as the value \<open>snap.val()\<close> gives (\<open>null\<close> when nothing is stored).
  \<^verbatim>\<open>const data = snap.val() || {};  return data.role || 'personnel';\<close>
\<close>

definition resolveRole :: "string \<Rightarrow> js_error + jsval \<Rightarrow> effect list \<times> (js_error + jsval)" where
  "resolveRole uid snap =
     ([DbGet (''/users/'' @ uid)],
      (case snap of
         Inl e \<Rightarrow> Inl e
       | Inr v \<Rightarrow>
           (let data = (if truthy v then v else JObj [])
            in Inr (if truthy (js_prop data ''role'') then js_prop data ''role''
                    else JStr ''personnel''))))"

text \<open>
  What the outside answers to the handler of \<open>auth.onAuthStateChanged\<close>: the outcomes
  of \<open>adminPresenceRef.remove()\<close>, of the read of the user's record, of
  \<open>adminPresenceRef.set(true)\<close>, and of the request that starts the cameras.
\<close>

record auth_env =
  presence_remove :: "js_error + unit"
  user_snap :: "js_error + jsval"
  presence_set :: "js_error + unit"
  start_cameras :: api_env

definition onAuthStateChanged ::
  "app \<Rightarrow> string option \<Rightarrow> auth_env \<Rightarrow> effect list \<times> app \<times> (js_error + unit)" where
  "onAuthStateChanged st user env =
     (case user of
        None \<Rightarrow>
          (let (effs, ref) =
                 (case adminPresenceRef st of
                    None \<Rightarrow> ([], None)
                  | Some p \<Rightarrow>
                      ([DbRemove p],
                       (case presence_remove env of Inl e \<Rightarrow> Some p | Inr u \<Rightarrow> None)))
           in (effs @ showLogin,
               st\<lparr>currentUser := None, currentRole := JNull, adminPresenceRef := ref\<rparr>,
               Inr ()))
      | Some uid \<Rightarrow>
          (case resolveRole uid (user_snap env) of
             (effs, Inl e) \<Rightarrow> (effs, st\<lparr>currentUser := Some uid\<rparr>, Inl e)
           | (effs, Inr role) \<Rightarrow>
               (if role = JStr ''admin'' then
                  (let p = ''/activeAdmins/'' @ uid;
                       st' = st\<lparr>currentUser := Some uid, currentRole := role,
                                adminPresenceRef := Some p\<rparr>
                   in case presence_set env of
                        Inl e \<Rightarrow> (effs @ [DbSet p (JBool True)], st', Inl e)
                      | Inr u \<Rightarrow>
                          (case api POST ''/api/start_cameras'' (start_cameras env) of
                             (effs', r) \<Rightarrow>
                               (effs @ [DbSet p (JBool True), DbOnDisconnectRemove p] @ effs'
                                @ [case r of
                                     Inl err \<Rightarrow> Console Err [Text ''Could not start cameras:'', Thrown err]
                                   | Inr v \<Rightarrow> Console Log [Text ''Cameras started'']]
                                @ [SidebarVisible True, MenuToggleVisible True, Spawn Route],
                                st', Inr ())))
                else
                  (effs @ [SidebarVisible True, MenuToggleVisible True, Spawn Route],
                   st\<lparr>currentUser := Some uid, currentRole := role\<rparr>, Inr ()))))"

text \<open>
  The click handler of the logout button. \<open>activeAdmins_exists\<close> is the outcome of
  \<open>rtdb.ref('/activeAdmins').get()\<close>, as \<open>snap.exists()\<close> gives.
\<close>

record logout_env =
  logout_remove :: "js_error + unit"
  activeAdmins_exists :: "js_error + bool"
  stop_cameras :: api_env
  signOut :: "js_error + unit"

text \<open>The body of the outer \<open>try\<close>; whatever it throws is dropped by \<open>catch(_) {}\<close>.\<close>

definition logout_admin :: "app \<Rightarrow> logout_env \<Rightarrow> effect list \<times> app" where
  "logout_admin st env =
     (case (case adminPresenceRef st of
              None \<Rightarrow> ([], Inr st)
            | Some p \<Rightarrow>
                ([DbRemove p],
                 (case logout_remove env of
                    Inl e \<Rightarrow> Inl e
                  | Inr u \<Rightarrow> Inr (st\<lparr>adminPresenceRef := None\<rparr>)))) of
        (effs, Inl e) \<Rightarrow> (effs, st)
      | (effs, Inr st') \<Rightarrow>
          (case activeAdmins_exists env of
             Inl e \<Rightarrow> (effs @ [DbGet ''/activeAdmins''], st')
           | Inr exists \<Rightarrow>
               (if \<not> exists then
                  (case api POST ''/api/stop_cameras'' (stop_cameras env) of
                     (effs', r) \<Rightarrow>
                       (effs @ [DbGet ''/activeAdmins''] @ effs'
                        @ [case r of
                             Inl err \<Rightarrow> Console Err [Text ''Could not stop cameras:'', Thrown err]
                           | Inr v \<Rightarrow> Console Log [Text ''Cameras stopped (last admin logged out)'']],
                        st'))
                else (effs @ [DbGet ''/activeAdmins''], st'))))"

definition logout :: "app \<Rightarrow> logout_env \<Rightarrow> effect list \<times> app \<times> (js_error + unit)" where
  "logout st env =
     (let (effs, st') =
            (if currentRole st = JStr ''admin'' then logout_admin st env else ([], st))
      in case signOut env of
           Inl e \<Rightarrow> (effs @ [SignOut], st', Inl e)
         | Inr u \<Rightarrow> (effs @ [SignOut, MenuToggleVisible False], st', Inr ()))"

text \<open>The \<open>beforeunload\<close> handler; the argument is the outcome of \<open>adminPresenceRef.remove()\<close>.\<close>

definition beforeUnload :: "app \<Rightarrow> js_error + unit \<Rightarrow> effect list \<times> app" where
  "beforeUnload st removed =
     (if currentRole st = JStr ''admin'' then
        (case adminPresenceRef st of
           None \<Rightarrow> ([SendBeacon ''/api/check_stop_cameras''], st)
         | Some p \<Rightarrow>
             ([DbRemove p, SendBeacon ''/api/check_stop_cameras''],
              (case removed of Inl e \<Rightarrow> st | Inr u \<Rightarrow> st\<lparr>adminPresenceRef := None\<rparr>)))
      else ([], st))"

text \<open>
  One run of \<open>route()\<close> with its effects: the intervals of the page are cleared, then
  the action \<open>route\<close> chose is taken. \<open>return renderX()\<close> hands over to the renderer.
\<close>

definition run_route :: "app \<Rightarrow> string \<Rightarrow> effect list" where
  "run_route st location_hash =
     ClearPageIntervals #
     (case route location_hash (currentUser st) (currentRole st) of
        ShowLogin \<Rightarrow> showLogin
      | Render p \<Rightarrow> [Spawn (Renderer p)]
      | SetLocationHash h \<Rightarrow> [SetHash h])"

text \<open>
  The top level of the script: the socket and its two subscriptions, the listeners, and
  the boot lines \<^verbatim>\<open>if (!location.hash) location.hash = '#/login'; route();\<close>
\<close>

definition boot :: "string \<Rightarrow> bool \<Rightarrow> effect list" where
  "boot location_hash logoutBtn =
     [SocketConnect ''/stream'',
      SocketOn ''pending_detection'' PendingDetection,
      SocketOn ''high_threat'' HighThreat,
      Listen Route, Listen AuthStateChanged]
     @ (if logoutBtn then [Listen Logout] else [])
     @ [Listen BeforeUnload]
     @ (if location_hash = [] then [SetHash ''#/login''] else [])
     @ [Spawn Route]"

section \<open>Live video and the browser camera\<close>

text \<open>The image element as attachLiveVideo uses it: \<open>imgEl.src\<close> and \<open>imgEl.dataset.live\<close>.\<close>

record img =
  src :: string
  live :: string

definition PLACEHOLDER_SRC :: string where
  "PLACEHOLDER_SRC = ''/static/placeholder.jpg''"

definition LIVE_SRC :: "int \<Rightarrow> string" where
  "LIVE_SRC now = ''/api/video_feed?ts='' @ String_int now"

text \<open>
  \<open>attachLiveVideo(imgEl)\<close> for an element that exists: the effects, and the element
  as it leaves it. \<open>checkAndSwap()\<close> is called once without \<open>await\<close> and registered
  with \<open>addInterval(checkAndSwap, 2000)\<close>; \<open>imgEl.onerror\<close> is \<open>imgError\<close>.
\<close>

definition attachLiveVideo :: "effect list \<times> img" where
  "attachLiveVideo =
     ([ImgSrc PLACEHOLDER_SRC, Spawn CheckAndSwap, SetInterval CheckAndSwap 2000, Listen ImgError],
      \<lparr>src = PLACEHOLDER_SRC, live = ''0''\<rparr>)"

text \<open>
  \<open>Number(v)\<close> for a value whose conversion does not throw, with \<open>None\<close> for NaN.
  The conversion of strings, arrays and objects goes through the engine's number grammar,
  which is the parameter \<open>conv\<close>.
\<close>

fun Number_js :: "(jsval \<Rightarrow> real option) \<Rightarrow> jsval \<Rightarrow> real option" where
  "Number_js conv (JNum n) = Some n"
| "Number_js conv (JBool b) = Some (if b then 1 else 0)"
| "Number_js conv JNull = Some 0"
| "Number_js conv JUndefined = None"
| "Number_js conv v = conv v"

text \<open>\<^verbatim>\<open>console.debug('status poll failed', e?.message || e);\<close>\<close>

definition status_poll_failed :: "js_error \<Rightarrow> effect" where
  "status_poll_failed e =
     Console Debug [Text ''status poll failed'', if message e \<noteq> [] then Text (message e) else Thrown e]"

definition checkAndSwap ::
  "(jsval \<Rightarrow> real option) \<Rightarrow> img \<Rightarrow> int \<Rightarrow> api_env \<Rightarrow> effect list \<times> img" where
  "checkAndSwap conv imgEl now env =
     (case api GET ''/api/status'' env of
        (effs, Inl e) \<Rightarrow> (effs @ [status_poll_failed e], imgEl)
      | (effs, Inr data) \<Rightarrow>
          (if nullish data then (effs @ [status_poll_failed engine_TypeError], imgEl)
           else
             (let count = (if truthy (js_prop data ''camerasActive'') then js_prop data ''camerasActive''
                           else JNum 0)
              in if unprintable count then (effs @ [status_poll_failed engine_TypeError], imgEl)
                 else
                   (let active = Number_js conv count
                    in if (case active of None \<Rightarrow> False | Some a \<Rightarrow> a > 0) \<and> live imgEl \<noteq> ''1'' then
                         (effs @ [ImgSrc (LIVE_SRC now)], \<lparr>src = LIVE_SRC now, live = ''1''\<rparr>)
                       else if active = Some 0 \<and> live imgEl \<noteq> ''0'' then
                         (effs @ [ImgSrc PLACEHOLDER_SRC], \<lparr>src = PLACEHOLDER_SRC, live = ''0''\<rparr>)
                       else (effs, imgEl)))))"

text \<open>\<open>imgEl.onerror\<close>: the image failed to load.\<close>

definition imgError :: "img \<Rightarrow> effect list \<times> img" where
  "imgError imgEl =
     (if live imgEl = ''1'' then ([ImgSrc PLACEHOLDER_SRC], \<lparr>src = PLACEHOLDER_SRC, live = ''0''\<rparr>)
      else ([], imgEl))"

text \<open>
  \<open>startBrowserCamera(videoEl)\<close>; the argument is the outcome of
  \<open>navigator.mediaDevices.getUserMedia\<close>. The canvas calls are taken to succeed.
\<close>

definition startBrowserCamera :: "js_error + unit \<Rightarrow> effect list \<times> (js_error + unit)" where
  "startBrowserCamera getUserMedia =
     ((case getUserMedia of
         Inl err \<Rightarrow> [Console Err [Text ''Could not access webcam:'', Thrown err]]
       | Inr u \<Rightarrow> [Spawn SendFrame]),
      Inr ())"

text \<open>
  \<open>sendFrame()\<close>: \<open>ready\<close> is \<open>videoEl.readyState === videoEl.HAVE_ENOUGH_DATA\<close>.
  The result is the effects and the new \<open>lastSirenAt\<close>.
\<close>

definition sendFrame :: "bool \<Rightarrow> api_env \<Rightarrow> bool \<Rightarrow> int \<Rightarrow> int \<Rightarrow> effect list \<times> int" where
  "sendFrame ready env sirenEl now lastSiren =
     (if ready then
        (case api POST ''/api/upload_frame'' env of
           (effs, Inl err) \<Rightarrow>
             (effs @ [Console Err [Text ''upload_frame failed'', Text (message err)]]
              @ [SetTimeout SendFrame 1000], lastSiren)
         | (effs, Inr res) \<Rightarrow>
             (case maybePlaySiren sirenEl now res lastSiren of
                (played, lastSiren') \<Rightarrow>
                  (effs @ (if played then [SirenPlay] else []) @ [SetTimeout SendFrame 1000],
                   lastSiren')))
      else ([SetTimeout SendFrame 1000], lastSiren))"

text \<open>The handler of the socket event \<open>high_threat\<close>.\<close>

definition highThreat :: "bool \<Rightarrow> int \<Rightarrow> jsval \<Rightarrow> int \<Rightarrow> effect list \<times> int" where
  "highThreat sirenEl now payload lastSiren =
     (case maybePlaySiren sirenEl now payload lastSiren of
        (played, lastSiren') \<Rightarrow> ((if played then [SirenPlay] else []), lastSiren'))"

section \<open>Pages\<close>

text \<open>
  \<open>renderAlertsToday(containerId, items)\<close>, as far as it can throw: \<open>container\<close> says
  whether the element exists. \<open>(items || []).slice(0,3).forEach(i => ...)\<close> throws a
  TypeError when \<open>items\<close> is truthy and no array, and when one of the first three
  items cannot be shown: the item is \<open>null\<close> or \<open>undefined\<close>, or one of
  \<open>i.label ?? i.name ?? 'event'\<close>, \<open>i.camera\<close>, \<open>i.conf ?? i.confidence ?? '-'\<close>
  cannot be converted to a string in the template literal.
\<close>

definition alert_item_throws :: "jsval \<Rightarrow> bool" where
  "alert_item_throws i =
     (nullish i
      \<or> unprintable (coalesce (js_prop i ''label'') (coalesce (js_prop i ''name'') (JStr ''event'')))
      \<or> unprintable (js_prop i ''camera'')
      \<or> unprintable (coalesce (js_prop i ''conf'') (coalesce (js_prop i ''confidence'') (JStr ''-''))))"

definition renderAlertsToday :: "bool \<Rightarrow> jsval \<Rightarrow> js_error + unit" where
  "renderAlertsToday container items =
     (if \<not> container then Inr ()
      else if \<not> truthy items then Inr ()
      else (case items of
              JArr xs \<Rightarrow>
                if list_ex alert_item_throws (take 3 xs) then Inl engine_TypeError else Inr ()
            | _ \<Rightarrow> Inl engine_TypeError))"

text \<open>
  The elements of a dashboard that \<open>setPill\<close> and \<open>renderAlertsToday\<close> look up and
  whose presence decides whether a conversion is made: the pill of the threat level
  (\<open>threatText\<close>, \<open>p_threatText\<close>) and the list of alerts (\<open>alertsToday\<close>,
  \<open>p_alertsToday\<close>).
\<close>

record status_els =
  threatText :: bool
  alertsToday :: bool

text \<open>
  The lines both dashboards run on the status they fetched, first with the destructured
  result of the first request, then with \<open>data\<close> in each poll. Reading a field of
  \<open>null\<close> or \<open>undefined\<close> throws. \<open>setPill('threatText', threatLevel, threatLevel)\<close>
  assigns the threat level to \<open>textContent\<close> when the pill exists;
  \<open>String(camerasActive)\<close> is evaluated whether the pill exists or not; then the alerts
  of the day are listed.
\<close>

definition show_status :: "status_els \<Rightarrow> jsval \<Rightarrow> js_error + unit" where
  "show_status els data =
     (if nullish data then Inl engine_TypeError
      else if threatText els \<and> unprintable (js_prop data ''threatLevel'') then Inl engine_TypeError
      else if unprintable (js_prop data ''camerasActive'') then Inl engine_TypeError
      else renderAlertsToday (alertsToday els) (js_prop data ''alertsToday''))"

text \<open>
  \<open>renderAdminDashboard()\<close>: \<open>videoStream\<close> and \<open>browserCam\<close> say whether the
  template has these elements, \<open>els\<close> which status elements it has; \<open>env\<close> answers
  the awaited request.
\<close>

definition renderAdminDashboard ::
  "bool \<Rightarrow> status_els \<Rightarrow> bool \<Rightarrow> api_env \<Rightarrow> effect list \<times> (js_error + unit)" where
  "renderAdminDashboard videoStream els browserCam env =
     (let pre = SetContent ''adminDashboardTpl'' # (if videoStream then fst attachLiveVideo else [])
      in case api GET ''/api/status'' env of
           (effs, Inl e) \<Rightarrow> (pre @ effs, Inl e)
         | (effs, Inr data) \<Rightarrow>
             (case show_status els data of
                Inl e \<Rightarrow> (pre @ effs, Inl e)
              | Inr u \<Rightarrow>
                  (pre @ effs @ [SetInterval AdminStatusPoll 2000]
                   @ (if browserCam then [Spawn StartBrowserCamera] else []),
                   Inr ())))"

text \<open>The function given to \<open>addInterval\<close> by renderAdminDashboard; its \<open>catch(e){}\<close> is empty.\<close>

definition adminStatusPoll :: "status_els \<Rightarrow> api_env \<Rightarrow> effect list \<times> (js_error + unit)" where
  "adminStatusPoll els env =
     (case api GET ''/api/status'' env of
        (effs, Inl e) \<Rightarrow> (effs, Inr ())
      | (effs, Inr data) \<Rightarrow>
          (case show_status els data of
             Inl e \<Rightarrow> (effs, Inr ())
           | Inr u \<Rightarrow> (effs, Inr ())))"

definition renderPersonnelDashboard ::
  "status_els \<Rightarrow> bool \<Rightarrow> api_env \<Rightarrow> effect list \<times> (js_error + unit)" where
  "renderPersonnelDashboard els browserCam env =
     (case api GET ''/api/status'' env of
        (effs, Inl e) \<Rightarrow> (SetContent ''personnelDashboardTpl'' # effs, Inl e)
      | (effs, Inr data) \<Rightarrow>
          (case show_status els data of
             Inl e \<Rightarrow> (SetContent ''personnelDashboardTpl'' # effs, Inl e)
           | Inr u \<Rightarrow>
               (SetContent ''personnelDashboardTpl'' # effs @ [SetInterval PersonnelStatusPoll 2000]
                @ (if browserCam then [Spawn StartBrowserCamera] else []),
                Inr ())))"

definition personnelStatusPoll :: "status_els \<Rightarrow> api_env \<Rightarrow> effect list \<times> (js_error + unit)" where
  "personnelStatusPoll els env =
     (case api GET ''/api/status'' env of
        (effs, Inl e) \<Rightarrow> (effs, Inr ())
      | (effs, Inr data) \<Rightarrow>
          (case show_status els data of
             Inl e \<Rightarrow> (effs, Inr ())
           | Inr u \<Rightarrow> (effs, Inr ())))"

definition renderAdminAlerts :: "effect list \<times> (js_error + unit)" where
  "renderAdminAlerts = ([SetContent ''adminAlertsTpl''], Inr ())"

text \<open>
  \<open>renderPending(payload)\<close>: \<open>pendingList\<close> says whether the list element exists.
  \<open>payload.time*1000\<close> throws on a payload that is \<open>null\<close> or \<open>undefined\<close> and
  on a time that cannot be converted to a number;
  \<open>payload.detections.map(d => d.label + ' (' + d.conf + ')')\<close> throws unless
  \<open>detections\<close> is an array whose elements are neither \<open>null\<close> nor \<open>undefined\<close>
  and have a label and a confidence that can be converted to a string; the template
  literal then converts \<open>payload.camera\<close> and \<open>payload.threatLevel\<close>.
\<close>

definition detection_throws :: "jsval \<Rightarrow> bool" where
  "detection_throws d =
     (nullish d \<or> unprintable (js_prop d ''label'') \<or> unprintable (js_prop d ''conf''))"

definition renderPending :: "bool \<Rightarrow> jsval \<Rightarrow> effect list \<times> (js_error + unit)" where
  "renderPending pendingList payload =
     (if \<not> pendingList then ([], Inr ())
      else if nullish payload then ([], Inl engine_TypeError)
      else if unprintable (js_prop payload ''time'') then ([], Inl engine_TypeError)
      else (case js_prop payload ''detections'' of
              JArr ds \<Rightarrow>
                if list_ex detection_throws ds then ([], Inl engine_TypeError)
                else if unprintable (js_prop payload ''camera'')
                        \<or> unprintable (js_prop payload ''threatLevel'')
                  then ([], Inl engine_TypeError)
                else ([Listen Verify, Listen Dismiss], Inr ())
            | _ \<Rightarrow> ([], Inl engine_TypeError)))"

text \<open>The handler of the socket event \<open>pending_detection\<close>.\<close>

definition pendingDetection :: "string \<Rightarrow> bool \<Rightarrow> jsval \<Rightarrow> effect list \<times> (js_error + unit)" where
  "pendingDetection location_hash pendingList payload =
     (if location_hash = ''#/admin/alerts'' then renderPending pendingList payload else ([], Inr ()))"

text \<open>
  \<open>btnV.onclick\<close> and \<open>btnD.onclick\<close>, which differ in the \<open>action\<close> they send. They
  exist only where renderPending returned, so \<open>payload.detections\<close> is an array;
  \<open>payload.detections[0].label\<close> throws when it is empty, before \<open>api\<close> is called.
  \<open>JSON.stringify\<close> converts nothing to a string and does not throw on JSON values.
\<close>

definition resolveAlert :: "jsval \<Rightarrow> api_env \<Rightarrow> effect list \<times> (js_error + unit)" where
  "resolveAlert payload env =
     (case js_prop payload ''detections'' of
        JArr (d # ds) \<Rightarrow>
          (if nullish d then ([], Inl engine_TypeError)
           else (case api POST ''/api/alerts/resolve'' env of
                   (effs, Inl e) \<Rightarrow> (effs, Inl e)
                 | (effs, Inr v) \<Rightarrow> (effs, Inr ())))
      | _ \<Rightarrow> ([], Inl engine_TypeError))"

text \<open>\<open>Object.values(v)\<close> for a value that is neither \<open>null\<close> nor \<open>undefined\<close>.\<close>

fun object_values :: "jsval \<Rightarrow> jsval list" where
  "object_values (JObj kvs) = map snd kvs"
| "object_values (JArr xs) = xs"
| "object_values (JStr s) = map (\<lambda>c. JStr [c]) s"
| "object_values v = []"

text \<open>
  \<open>renderAdminActivity()\<close>: \<open>snap\<close> is the outcome of
  \<open>firebase.database().ref('/detections').get()\<close> as \<open>snap.val()\<close> gives,
  \<open>tbody\<close> says whether the table body exists. A row cannot be shown when it is
  \<open>null\<close> (\<open>r.name\<close> throws) or when one of \<open>r.name\<close>, \<open>r.time\<close>,
  \<open>r.camera\<close>, \<open>r.threatLevel\<close>, \<open>r.status\<close> cannot be converted in the
  template literal.
\<close>

definition activity_row_throws :: "jsval \<Rightarrow> bool" where
  "activity_row_throws r =
     (nullish r \<or> unprintable (js_prop r ''name'') \<or> unprintable (js_prop r ''time'')
      \<or> unprintable (js_prop r ''camera'') \<or> unprintable (js_prop r ''threatLevel'')
      \<or> unprintable (js_prop r ''status''))"

definition renderAdminActivity :: "js_error + jsval \<Rightarrow> bool \<Rightarrow> effect list \<times> (js_error + unit)" where
  "renderAdminActivity snap tbody =
     ([SetContent ''adminActivityTpl'', DbGet ''/detections''],
      (case snap of
         Inl e \<Rightarrow> Inl e
       | Inr v \<Rightarrow>
           (let data = (if truthy v then v else JObj []);
                rows = object_values data
            in if \<not> tbody then Inr ()
               else if list_ex activity_row_throws rows then Inl engine_TypeError
               else Inr ())))"

text \<open>
  The inner function \<open>refresh()\<close> of renderAdminCameras; \<open>cameraList\<close> says whether
  the list element exists. \<open>Object.entries(cams)\<close> throws on \<open>null\<close>; a camera
  cannot be shown when it is \<open>null\<close> or when \<open>c.name\<close> or \<open>c.source\<close> cannot be
  converted in the template literal.
\<close>

definition camera_throws :: "jsval \<Rightarrow> bool" where
  "camera_throws c =
     (nullish c \<or> unprintable (js_prop c ''name'') \<or> unprintable (js_prop c ''source''))"

definition refresh :: "bool \<Rightarrow> api_env \<Rightarrow> effect list \<times> (js_error + unit)" where
  "refresh cameraList env =
     (case api GET ''/api/cameras'' env of
        (effs, Inl e) \<Rightarrow> (effs, Inl e)
      | (effs, Inr cams) \<Rightarrow>
          (effs,
           (if \<not> cameraList then Inr ()
            else if nullish cams then Inl engine_TypeError
            else if list_ex camera_throws (object_values cams) then Inl engine_TypeError
            else Inr ())))"

definition renderAdminCameras :: "bool \<Rightarrow> api_env \<Rightarrow> effect list \<times> (js_error + unit)" where
  "renderAdminCameras cameraList env =
     (case refresh cameraList env of
        (effs, Inl e) \<Rightarrow> (SetContent ''adminCamerasTpl'' # effs, Inl e)
      | (effs, Inr u) \<Rightarrow> (SetContent ''adminCamerasTpl'' # effs @ [Listen AddCamera], Inr ()))"

text \<open>The submit handler of the form that adds a camera: the POST, then \<open>refresh()\<close>.\<close>

definition addCamera :: "bool \<Rightarrow> api_env \<Rightarrow> api_env \<Rightarrow> effect list \<times> (js_error + unit)" where
  "addCamera cameraList env env' =
     (case api POST ''/api/cameras'' env of
        (effs, Inl e) \<Rightarrow> (effs, Inl e)
      | (effs, Inr v) \<Rightarrow>
          (case refresh cameraList env' of
             (effs', r) \<Rightarrow> (effs @ effs', r)))"

text \<open>The settings pages; \<open>pwForm\<close> says whether the password form exists.\<close>

definition renderAdminSettings :: "bool \<Rightarrow> effect list \<times> (js_error + unit)" where
  "renderAdminSettings pwForm =
     ([SetContent ''adminSettingsTpl'', Listen SaveLanguage, Listen AddUser]
      @ (if pwForm then [Listen ChangePassword] else []),
      Inr ())"

definition renderPersonnelSettings :: "bool \<Rightarrow> effect list \<times> (js_error + unit)" where
  "renderPersonnelSettings pwForm =
     ([SetContent ''personnelSettingsTpl'', Listen SaveLanguage]
      @ (if pwForm then [Listen ChangePassword] else []),
      Inr ())"

definition saveLanguage :: "api_env \<Rightarrow> effect list \<times> (js_error + unit)" where
  "saveLanguage env =
     (case api POST ''/api/user_language'' env of
        (effs, Inl e) \<Rightarrow> (effs, Inl e)
      | (effs, Inr v) \<Rightarrow> (effs @ [Alert ''Language saved''], Inr ()))"

definition addUser :: "api_env \<Rightarrow> effect list \<times> (js_error + unit)" where
  "addUser env =
     (case api POST ''/api/add_user'' env of
        (effs, Inl e) \<Rightarrow> (effs, Inl e)
      | (effs, Inr v) \<Rightarrow> (effs @ [Alert ''User created''], Inr ()))"

text \<open>
  The submit handler of both password forms. \<open>authUser\<close> says whether
  \<open>auth.currentUser\<close> is an object (reading \<open>email\<close> of \<open>null\<close> throws inside the
  \<open>try\<close>); the other arguments are the outcomes of \<open>reauthenticateWithCredential\<close>
  and \<open>updatePassword\<close>.
\<close>

definition changePassword ::
  "bool \<Rightarrow> js_error + unit \<Rightarrow> js_error + unit \<Rightarrow> effect list \<times> (js_error + unit)" where
  "changePassword authUser reauthenticated updated =
     (case (if \<not> authUser then Inl engine_TypeError
            else (case reauthenticated of Inl e \<Rightarrow> Inl e | Inr u \<Rightarrow> updated)) of
        Inl err \<Rightarrow> ([Alert (''Error updating password: '' @ message err)], Inr ())
      | Inr u \<Rightarrow> ([Alert ''Password updated successfully''], Inr ()))"

section \<open>The front end as a whole\<close>

text \<open>
  One event is one run of one function of the script, with what the page and the outside
  answer to it. \<open>step\<close> gives the effects of the run, the state after it and how its
  promise settles.
\<close>

datatype event =
    Boot string bool
  | RouteRun string
  | AuthState "string option" auth_env
  | LogoutClick logout_env
  | Unload "js_error + unit"
  | PendingDetectionMsg string bool jsval
  | HighThreatMsg bool int jsval
  | LoginSubmitted "js_error + unit"
  | RenderAdminDashboard bool status_els bool api_env
  | RenderAdminAlerts
  | RenderAdminActivity "js_error + jsval" bool
  | RenderAdminCameras bool api_env
  | RenderAdminSettings bool
  | RenderPersonnelDashboard status_els bool api_env
  | RenderPersonnelSettings bool
  | CheckAndSwapRun "jsval \<Rightarrow> real option" img int api_env
  | ImgErrorRun img
  | StartBrowserCameraRun "js_error + unit"
  | SendFrameRun bool api_env bool int
  | AdminStatusPollRun status_els api_env
  | PersonnelStatusPollRun status_els api_env
  | ResolveAlertClick jsval api_env
  | AddCameraSubmit bool api_env api_env
  | SaveLanguageSubmit api_env
  | AddUserSubmit api_env
  | ChangePasswordSubmit bool "js_error + unit" "js_error + unit"

fun step :: "app \<Rightarrow> event \<Rightarrow> effect list \<times> app \<times> (js_error + unit)" where
  "step st (Boot location_hash logoutBtn) = (boot location_hash logoutBtn, st, Inr ())"
| "step st (RouteRun location_hash) = (run_route st location_hash, st, Inr ())"
| "step st (AuthState user env) = onAuthStateChanged st user env"
| "step st (LogoutClick env) = logout st env"
| "step st (Unload removed) =
     (case beforeUnload st removed of (effs, st') \<Rightarrow> (effs, st', Inr ()))"
| "step st (PendingDetectionMsg location_hash pendingList payload) =
     (case pendingDetection location_hash pendingList payload of (effs, r) \<Rightarrow> (effs, st, r))"
| "step st (HighThreatMsg sirenEl now payload) =
     (case highThreat sirenEl now payload (lastSirenAt st) of
        (effs, l) \<Rightarrow> (effs, st\<lparr>lastSirenAt := l\<rparr>, Inr ()))"
| "step st (LoginSubmitted signedIn) =
     (case loginSubmit signedIn of (effs, r) \<Rightarrow> (effs, st, r))"
| "step st (RenderAdminDashboard videoStream els browserCam env) =
     (case renderAdminDashboard videoStream els browserCam env of (effs, r) \<Rightarrow> (effs, st, r))"
| "step st RenderAdminAlerts =
     (case renderAdminAlerts of (effs, r) \<Rightarrow> (effs, st, r))"
| "step st (RenderAdminActivity snap tbody) =
     (case renderAdminActivity snap tbody of (effs, r) \<Rightarrow> (effs, st, r))"
| "step st (RenderAdminCameras cameraList env) =
     (case renderAdminCameras cameraList env of (effs, r) \<Rightarrow> (effs, st, r))"
| "step st (RenderAdminSettings pwForm) =
     (case renderAdminSettings pwForm of (effs, r) \<Rightarrow> (effs, st, r))"
| "step st (RenderPersonnelDashboard els browserCam env) =
     (case renderPersonnelDashboard els browserCam env of (effs, r) \<Rightarrow> (effs, st, r))"
| "step st (RenderPersonnelSettings pwForm) =
     (case renderPersonnelSettings pwForm of (effs, r) \<Rightarrow> (effs, st, r))"
| "step st (CheckAndSwapRun conv imgEl now env) =
     (fst (checkAndSwap conv imgEl now env), st, Inr ())"
| "step st (ImgErrorRun imgEl) = (fst (imgError imgEl), st, Inr ())"
| "step st (StartBrowserCameraRun media) =
     (case startBrowserCamera media of (effs, r) \<Rightarrow> (effs, st, r))"
| "step st (SendFrameRun ready env sirenEl now) =
     (case sendFrame ready env sirenEl now (lastSirenAt st) of
        (effs, l) \<Rightarrow> (effs, st\<lparr>lastSirenAt := l\<rparr>, Inr ()))"
| "step st (AdminStatusPollRun els env) =
     (case adminStatusPoll els env of (effs, r) \<Rightarrow> (effs, st, r))"
| "step st (PersonnelStatusPollRun els env) =
     (case personnelStatusPoll els env of (effs, r) \<Rightarrow> (effs, st, r))"
| "step st (ResolveAlertClick payload env) =
     (case resolveAlert payload env of (effs, r) \<Rightarrow> (effs, st, r))"
| "step st (AddCameraSubmit cameraList env env') =
     (case addCamera cameraList env env' of (effs, r) \<Rightarrow> (effs, st, r))"
| "step st (SaveLanguageSubmit env) =
     (case saveLanguage env of (effs, r) \<Rightarrow> (effs, st, r))"
| "step st (AddUserSubmit env) =
     (case addUser env of (effs, r) \<Rightarrow> (effs, st, r))"
| "step st (ChangePasswordSubmit authUser reauthenticated updated) =
     (case changePassword authUser reauthenticated updated of (effs, r) \<Rightarrow> (effs, st, r))"

definition effects_of :: "app \<Rightarrow> event \<Rightarrow> effect list" where
  "effects_of st ev = fst (step st ev)"

definition state_after :: "app \<Rightarrow> event \<Rightarrow> app" where
  "state_after st ev = fst (snd (step st ev))"

text \<open>The state after a sequence of events, from the state the script starts in.\<close>

fun run_events :: "app \<Rightarrow> event list \<Rightarrow> app" where
  "run_events st [] = st"
| "run_events st (ev # evs) = run_events (state_after st ev) evs"

text \<open>
  The shape of \<open>adminPresenceRef\<close>: it is \<open>null\<close> or the reference
  \<open>/activeAdmins/<uid>\<close> of some uid.
\<close>

definition presence_ok :: "app \<Rightarrow> bool" where
  "presence_ok st =
     (case adminPresenceRef st of
        None \<Rightarrow> True
      | Some p \<Rightarrow> take 14 p = ''/activeAdmins/'')"

text \<open>A path of the Realtime Database lies under one of the four record families.\<close>

definition under_family :: "string \<Rightarrow> bool" where
  "under_family p =
     (p = ''/users'' \<or> take 7 p = ''/users/''
      \<or> p = ''/detections'' \<or> take 12 p = ''/detections/''
      \<or> p = ''/cameras'' \<or> take 9 p = ''/cameras/''
      \<or> p = ''/activeAdmins'' \<or> take 14 p = ''/activeAdmins/'')"

text \<open>The database paths, the request paths and the image sources among the effects.\<close>

fun db_paths :: "effect list \<Rightarrow> string list" where
  "db_paths [] = []"
| "db_paths (DbGet p # es) = p # db_paths es"
| "db_paths (DbSet p v # es) = p # db_paths es"
| "db_paths (DbRemove p # es) = p # db_paths es"
| "db_paths (DbOnDisconnectRemove p # es) = p # db_paths es"
| "db_paths (e # es) = db_paths es"

fun request_paths :: "effect list \<Rightarrow> string list" where
  "request_paths [] = []"
| "request_paths (Fetch m p # es) = p # request_paths es"
| "request_paths (SendBeacon p # es) = p # request_paths es"
| "request_paths (e # es) = request_paths es"

fun fetches :: "effect list \<Rightarrow> (http_method \<times> string) list" where
  "fetches [] = []"
| "fetches (Fetch m p # es) = (m, p) # fetches es"
| "fetches (e # es) = fetches es"

fun intervals :: "effect list \<Rightarrow> (task \<times> nat) list" where
  "intervals [] = []"
| "intervals (SetInterval t ms # es) = (t, ms) # intervals es"
| "intervals (e # es) = intervals es"

fun timeouts :: "effect list \<Rightarrow> (task \<times> nat) list" where
  "timeouts [] = []"
| "timeouts (SetTimeout t ms # es) = (t, ms) # timeouts es"
| "timeouts (e # es) = timeouts es"

fun socket_events :: "effect list \<Rightarrow> string list" where
  "socket_events [] = []"
| "socket_events (SocketOn name t # es) = name # socket_events es"
| "socket_events (e # es) = socket_events es"

text \<open>An error has surfaced when the effects hold an \<open>alert\<close> or a call of \<open>console\<close>.\<close>

fun surfaced :: "effect list \<Rightarrow> bool" where
  "surfaced [] = False"
| "surfaced (Alert m # es) = True"
| "surfaced (Console l args # es) = True"
| "surfaced (e # es) = surfaced es"

section \<open>Sample answers of the outside\<close>

text \<open>
  Concrete inputs on which the properties below are evaluated: a request that fails
  before any response (no network), a status response reporting one active camera, the
  dashboard with all its status elements, the sign-in of an admin whose request to start
  the cameras fails, the logout of the last admin, two stored detections with different
  fields, and a \<open>pending_detection\<close> payload.
\<close>

definition offline :: api_env where
  "offline = \<lparr>getIdToken = None, fetched = Inl (Error ''Failed to fetch'')\<rparr>"

definition status_one_camera :: api_env where
  "status_one_camera =
     \<lparr>getIdToken = Some (Inr ''token''),
      fetched = Inr \<lparr>ok = True, status = 200, text_result = Inr [],
                    json_result = Inr (JObj [(''status'', JBool True), (''camerasActive'', JNum 1)])\<rparr>\<rparr>"

definition status_page :: status_els where
  "status_page = \<lparr>threatText = True, alertsToday = True\<rparr>"

definition admin_sign_in :: auth_env where
  "admin_sign_in =
     \<lparr>presence_remove = Inr (), user_snap = Inr (JObj [(''role'', JStr ''admin'')]),
      presence_set = Inr (), start_cameras = offline\<rparr>"

definition last_admin_out :: logout_env where
  "last_admin_out =
     \<lparr>logout_remove = Inr (), activeAdmins_exists = Inr False, stop_cameras = offline,
      signOut = Inr ()\<rparr>"

definition stored_detections :: jsval where
  "stored_detections =
     JObj [(''-N1'', JObj [(''time'', JNum 1700000000), (''camera'', JNum 0)]),
           (''-N2'', JObj [(''name'', JStr ''weapon'')])]"

definition weapon_alert :: jsval where
  "weapon_alert = JObj [(''time'', JNum 1700000000), (''camera'', JNum 0),
     (''detections'', JArr [JObj [(''label'', JStr ''weapon''), (''conf'', JNum 0.9)]]),
     (''threatLevel'', JStr ''high'')]"

section \<open>Properties of the values\<close>

lemma String_nat_nonempty: "String_nat n \<noteq> []"
  by (subst String_nat.simps) simp

declare String_nat.simps [simp del]

section \<open>Properties of the siren\<close>

lemma high_label_cases:
  "high_label d \<Longrightarrow> \<exists>s. js_prop d ''label'' = JStr s \<and> s \<in> set HIGH_LABELS"
  by (cases "js_prop d ''label''") (simp_all add: high_label_def)

lemma isHigh_cases:
  assumes "isHigh payload"
  shows "high_label payload
         \<or> (\<exists>ds d. js_prop payload ''detections'' = JArr ds \<and> d \<in> set ds \<and> high_label d)"
  using assms
  by (cases "js_prop payload ''detections''") (auto simp: isHigh_def list_ex_iff split: if_splits)

lemma maybePlaySiren_played:
  "fst (maybePlaySiren el now payload l0) \<Longrightarrow>
     maybePlaySiren el now payload l0 = (True, now) \<and> l0 + SIREN_COOLDOWN_MS \<le> now \<and> isHigh payload"
  by (auto simp: maybePlaySiren_def split: if_splits)

lemma maybePlaySiren_silent:
  "\<not> fst (maybePlaySiren el now payload l0) \<Longrightarrow> maybePlaySiren el now payload l0 = (False, l0)"
  by (auto simp: maybePlaySiren_def split: if_splits)

text \<open>Every play of a run is at least the cooldown after the \<open>lastSirenAt\<close> the run started from.\<close>

lemma siren_plays_after:
  "t \<in> set (siren_plays el l0 calls) \<Longrightarrow> l0 + SIREN_COOLDOWN_MS \<le> t"
proof (induction calls arbitrary: l0)
  case Nil
  then show ?case by simp
next
  case (Cons c calls)
  obtain now payload where c: "c = (now, payload)" by (cases c)
  show ?case
  proof (cases "fst (maybePlaySiren el now payload l0)")
    case True
    then have m: "maybePlaySiren el now payload l0 = (True, now)"
      and le: "l0 + SIREN_COOLDOWN_MS \<le> now"
      using maybePlaySiren_played by blast+
    from Cons.prems c m have "t = now \<or> t \<in> set (siren_plays el now calls)" by simp
    then show ?thesis
    proof
      assume "t = now"
      with le show ?thesis by simp
    next
      assume "t \<in> set (siren_plays el now calls)"
      then have "now + SIREN_COOLDOWN_MS \<le> t" by (rule Cons.IH)
      with le show ?thesis by (simp add: SIREN_COOLDOWN_MS_def)
    qed
  next
    case False
    then have m: "maybePlaySiren el now payload l0 = (False, l0)"
      by (rule maybePlaySiren_silent)
    from Cons.prems c m have "t \<in> set (siren_plays el l0 calls)" by simp
    then show ?thesis by (rule Cons.IH)
  qed
qed

lemma siren_plays_spaced:
  "sorted_wrt (\<lambda>a b. a + SIREN_COOLDOWN_MS \<le> b) (siren_plays el l0 calls)"
proof (induction calls arbitrary: l0)
  case Nil
  then show ?case by simp
next
  case (Cons c calls)
  obtain now payload where c: "c = (now, payload)" by (cases c)
  show ?case
  proof (cases "fst (maybePlaySiren el now payload l0)")
    case True
    then have m: "maybePlaySiren el now payload l0 = (True, now)"
      using maybePlaySiren_played by blast
    show ?thesis
      using c m Cons.IH [of now] siren_plays_after [of _ el now calls] by simp
  next
    case False
    then have m: "maybePlaySiren el now payload l0 = (False, l0)"
      by (rule maybePlaySiren_silent)
    show ?thesis using c m Cons.IH [of l0] by simp
  qed
qed

text \<open>
  Claim C6. The siren is label-gated and debounced. A call of maybePlaySiren starts the
  siren only if the payload's own label, or the label of one of the elements of its
  \<open>detections\<close> array, is one of weapons, weapon, other_coverings, otherCoverings,
  other_Coverings. After a call that played at clock value \<open>now\<close>, a call that reads a
  clock value less than 3000 ms later does not play and leaves \<open>lastSirenAt\<close> at
  \<open>now\<close>. In any run of calls, from any \<open>lastSirenAt\<close>, any two plays are at least
  3000 ms apart.
\<close>

theorem siren_debounced_label_gated:
  "(fst (maybePlaySiren sirenEl now payload l0) \<longrightarrow>
      (\<exists>s. js_prop payload ''label'' = JStr s \<and>
           s \<in> {''weapons'', ''weapon'', ''other_coverings'', ''otherCoverings'', ''other_Coverings''})
      \<or> (\<exists>ds d s. js_prop payload ''detections'' = JArr ds \<and> d \<in> set ds \<and>
           js_prop d ''label'' = JStr s \<and>
           s \<in> {''weapons'', ''weapon'', ''other_coverings'', ''otherCoverings'', ''other_Coverings''}))
   \<and> (fst (maybePlaySiren sirenEl now payload l0) \<and> now' - now < 3000 \<longrightarrow>
        maybePlaySiren sirenEl now' payload' (snd (maybePlaySiren sirenEl now payload l0))
          = (False, now))
   \<and> sorted_wrt (\<lambda>a b. 3000 \<le> b - a) (siren_plays sirenEl l0 calls)"
proof (intro conjI impI)
  assume "fst (maybePlaySiren sirenEl now payload l0)"
  then have high: "isHigh payload" using maybePlaySiren_played by blast
  have eq: "{''weapons'', ''weapon'', ''other_coverings'', ''otherCoverings'', ''other_Coverings''}
      = set HIGH_LABELS"
    by (simp add: HIGH_LABELS_def)
  from isHigh_cases [OF high]
  show "(\<exists>s. js_prop payload ''label'' = JStr s \<and>
           s \<in> {''weapons'', ''weapon'', ''other_coverings'', ''otherCoverings'', ''other_Coverings''})
      \<or> (\<exists>ds d s. js_prop payload ''detections'' = JArr ds \<and> d \<in> set ds \<and>
           js_prop d ''label'' = JStr s \<and>
           s \<in> {''weapons'', ''weapon'', ''other_coverings'', ''otherCoverings'', ''other_Coverings''})"
    unfolding eq
  proof
    assume "high_label payload"
    from high_label_cases [OF this]
    show "(\<exists>s. js_prop payload ''label'' = JStr s \<and> s \<in> set HIGH_LABELS)
      \<or> (\<exists>ds d s. js_prop payload ''detections'' = JArr ds \<and> d \<in> set ds \<and>
           js_prop d ''label'' = JStr s \<and> s \<in> set HIGH_LABELS)" ..
  next
    assume "\<exists>ds d. js_prop payload ''detections'' = JArr ds \<and> d \<in> set ds \<and> high_label d"
    then obtain ds d where a: "js_prop payload ''detections'' = JArr ds" "d \<in> set ds"
        "high_label d"
      by blast
    from high_label_cases [OF a(3)]
    obtain s where "js_prop d ''label'' = JStr s" "s \<in> set HIGH_LABELS" by blast
    with a have "\<exists>ds d s. js_prop payload ''detections'' = JArr ds \<and> d \<in> set ds \<and>
           js_prop d ''label'' = JStr s \<and> s \<in> set HIGH_LABELS" by blast
    then show "(\<exists>s. js_prop payload ''label'' = JStr s \<and> s \<in> set HIGH_LABELS)
      \<or> (\<exists>ds d s. js_prop payload ''detections'' = JArr ds \<and> d \<in> set ds \<and>
           js_prop d ''label'' = JStr s \<and> s \<in> set HIGH_LABELS)" ..
  qed
next
  assume "fst (maybePlaySiren sirenEl now payload l0) \<and> now' - now < 3000"
  then show "maybePlaySiren sirenEl now' payload'
      (snd (maybePlaySiren sirenEl now payload l0)) = (False, now)"
    by (auto simp: maybePlaySiren_def SIREN_COOLDOWN_MS_def split: if_splits)
next
  have "(\<lambda>a b. a + SIREN_COOLDOWN_MS \<le> b) = (\<lambda>a b::int. 3000 \<le> b - a)"
    by (auto simp: SIREN_COOLDOWN_MS_def fun_eq_iff)
  with siren_plays_spaced [of sirenEl l0 calls]
  show "sorted_wrt (\<lambda>a b. 3000 \<le> b - a) (siren_plays sirenEl l0 calls)" by simp
qed

theorem siren_debounced_label_gated_witness:
  "fst (maybePlaySiren True 5000 (JObj [(''detections'', JArr [JNull, JObj [(''label'', JStr ''weapon'')]])]) 0)
   \<and> (6000::int) - 5000 < 3000
   \<and> maybePlaySiren True 6000 (JObj [(''label'', JStr ''weapons'')])
        (snd (maybePlaySiren True 5000 (JObj [(''detections'', JArr [JNull, JObj [(''label'', JStr ''weapon'')]])]) 0))
      = (False, 5000)
   \<and> siren_plays True 0
        [(5000, JObj [(''label'', JStr ''weapon'')]), (7999, JObj [(''label'', JStr ''weapon'')]),
         (8000, JObj [(''label'', JStr ''weapon'')])] = [5000, 8000]"
  using siren_debounced_label_gated [of True 5000
      "JObj [(''detections'', JArr [JNull, JObj [(''label'', JStr ''weapon'')]])]" 0 6000
      "JObj [(''label'', JStr ''weapons'')]"
      "[(5000, JObj [(''label'', JStr ''weapon'')]), (7999, JObj [(''label'', JStr ''weapon'')]),
        (8000, JObj [(''label'', JStr ''weapon'')])]"]
  by (simp add: maybePlaySiren_def isHigh_def high_label_def HIGH_LABELS_def SIREN_COOLDOWN_MS_def)

section \<open>Properties of routing\<close>

lemma route_Render_iff:
  "route h u r = Render p \<longleftrightarrow>
     u \<noteq> None \<and> h = page_hash p \<and> r = JStr (if admin_renderer p then ''admin'' else ''personnel'')"
  by (cases p) (auto simp: route_def Let_def)

lemma route_signed_in:
  "u \<noteq> None \<Longrightarrow>
     (\<exists>p. route h u r = Render p)
     \<or> route h u r = SetLocationHash (if r = JStr ''admin'' then ''#/admin/dashboard'' else ''#/personnel/dashboard'')"
  by (simp add: route_def Let_def)

text \<open>
  Claim C8. Routing is gated by the role. When \<open>route()\<close> calls one of the renderers
  renderAdminDashboard, renderAdminAlerts, renderAdminActivity, renderAdminCameras,
  renderAdminSettings, then \<open>currentRole\<close> is admin; when it calls renderPersonnelDashboard
  or renderPersonnelSettings, then \<open>currentRole\<close> is personnel. With a signed-in user
  and a hash that is not the hash of a page of the current role, it calls no renderer and
  assigns to \<open>location.hash\<close> the dashboard of the role: the admin dashboard for an
  admin, the personnel dashboard otherwise. With no signed-in user it shows the login
  screen, whatever the hash and the role.
\<close>

theorem route_role_gated:
  "(route location_hash user role = Render p \<and> admin_renderer p \<longrightarrow>
      role = JStr ''admin'')
   \<and> (route location_hash user role = Render p \<and> \<not> admin_renderer p \<longrightarrow>
      role = JStr ''personnel'')
   \<and> (user \<noteq> None \<and>
        (\<forall>q. \<not> (location_hash = page_hash q \<and>
                 role = JStr (if admin_renderer q then ''admin'' else ''personnel''))) \<longrightarrow>
        (\<forall>q. route location_hash user role \<noteq> Render q) \<and>
        route location_hash user role =
          SetLocationHash (if role = JStr ''admin'' then ''#/admin/dashboard''
                           else ''#/personnel/dashboard''))
   \<and> route location_hash None role = ShowLogin"
proof (intro conjI impI)
  assume "route location_hash user role = Render p \<and> admin_renderer p"
  then show "role = JStr ''admin''"
    by (simp add: route_Render_iff)
next
  assume "route location_hash user role = Render p \<and> \<not> admin_renderer p"
  then show "role = JStr ''personnel''"
    by (simp add: route_Render_iff)
next
  assume a: "user \<noteq> None \<and>
        (\<forall>q. \<not> (location_hash = page_hash q \<and>
                 role = JStr (if admin_renderer q then ''admin'' else ''personnel'')))"
  then have none: "\<not> (\<exists>q. route location_hash user role = Render q)"
    unfolding route_Render_iff by blast
  then show "\<forall>q. route location_hash user role \<noteq> Render q" by blast
  from none a route_signed_in [of user location_hash role]
  show "route location_hash user role =
          SetLocationHash (if role = JStr ''admin'' then ''#/admin/dashboard''
                           else ''#/personnel/dashboard'')"
    by blast
next
  show "route location_hash None role = ShowLogin"
    by (simp add: route_def Let_def)
qed

theorem route_role_gated_witness:
  "(route ''#/admin/cameras'' (Some ''uid1'') (JStr ''admin'') = Render AdminCameras
      \<and> admin_renderer AdminCameras)
   \<and> (route ''#/personnel/settings'' (Some ''uid1'') (JStr ''personnel'') = Render PersonnelSettings
      \<and> \<not> admin_renderer PersonnelSettings)
   \<and> (Some ''uid1'' \<noteq> None
      \<and> (\<forall>q. \<not> (''#/admin/cameras'' = page_hash q \<and>
                 JStr ''personnel'' = JStr (if admin_renderer q then ''admin'' else ''personnel'')))
      \<and> route ''#/admin/cameras'' (Some ''uid1'') (JStr ''personnel'')
          = SetLocationHash ''#/personnel/dashboard'')
   \<and> route ''#/admin/cameras'' (None :: string option) (JStr ''admin'') = ShowLogin"
proof -
  have h: "\<forall>q. \<not> (''#/admin/cameras'' = page_hash q \<and>
                 JStr ''personnel'' = JStr (if admin_renderer q then ''admin'' else ''personnel''))"
  proof
    fix q show "\<not> (''#/admin/cameras'' = page_hash q \<and>
                 JStr ''personnel'' = JStr (if admin_renderer q then ''admin'' else ''personnel''))"
      by (cases q) simp_all
  qed
  show ?thesis
    using h
      route_role_gated [of "''#/admin/cameras''" "Some ''uid1''" "JStr ''admin''" AdminCameras]
      route_role_gated [of "''#/personnel/settings''" "Some ''uid1''" "JStr ''personnel''" PersonnelSettings]
      route_role_gated [of "''#/admin/cameras''" "Some ''uid1''" "JStr ''personnel''" AdminCameras]
    by (simp add: route_def)
qed

section \<open>Properties of the request helper\<close>

text \<open>
  Claim C7, amended. When \<open>fetch\<close> has resolved to a response: if the response is not
  ok, \<open>api\<close> throws an Error and returns no value; the message is the body text when
  the body could be read and is not empty, \<open>HTTP\<close> followed by the status code when the
  body is empty, and the status code alone when the body could not be read. If the
  response is ok, \<open>api\<close> settles as \<open>res.json()\<close> does: it returns the parsed body, or
  rejects when the body does not parse.
\<close>

theorem api_outcome:
  "fetched env = Inr res \<Longrightarrow> refreshIdToken (getIdToken env) = Inr tok \<Longrightarrow>
     (\<not> ok res \<longrightarrow>
        snd (api method path env) =
          Inl (Error (case text_result res of
                        Inr t \<Rightarrow> if t \<noteq> [] then t else ''HTTP '' @ String_nat (status res)
                      | Inl e \<Rightarrow> String_nat (status res))))
   \<and> (ok res \<longrightarrow> snd (api method path env) = json_result res)"
  by (auto simp: api_def not_ok_error_def Let_def String_nat_nonempty split: sum.splits)

theorem api_outcome_witness:
  "fetched \<lparr>getIdToken = Some (Inr ''tok''), fetched = Inr \<lparr>ok = False, status = 404,
        text_result = Inr ''no such camera'', json_result = Inl (Error ''bad json'')\<rparr>\<rparr>
     = Inr \<lparr>ok = False, status = 404, text_result = Inr ''no such camera'',
            json_result = Inl (Error ''bad json'')\<rparr>
   \<and> refreshIdToken (Some (Inr ''tok'')) = Inr (Some ''tok'')
   \<and> snd (api GET ''/api/cameras'' \<lparr>getIdToken = Some (Inr ''tok''), fetched = Inr \<lparr>ok = False,
        status = 404, text_result = Inr ''no such camera'', json_result = Inl (Error ''bad json'')\<rparr>\<rparr>)
     = Inl (Error ''no such camera'')"
  using api_outcome [of "\<lparr>getIdToken = Some (Inr ''tok''), fetched = Inr \<lparr>ok = False, status = 404,
        text_result = Inr ''no such camera'', json_result = Inl (Error ''bad json'')\<rparr>\<rparr>"
      "\<lparr>ok = False, status = 404, text_result = Inr ''no such camera'',
        json_result = Inl (Error ''bad json'')\<rparr>" "Some ''tok''" GET "''/api/cameras''"]
  by (simp add: refreshIdToken_def)

text \<open>
  The claim as first stated fails on a response that is not ok and has an empty body:
  the body can be read, and the message is not the body text.
\<close>

theorem api_message_counterexample:
  "snd (api GET ''/api/status'' \<lparr>getIdToken = None, fetched = Inr \<lparr>ok = False, status = 500,
        text_result = Inr [], json_result = Inr JNull\<rparr>\<rparr>) = Inl (Error ''HTTP 500'')
   \<and> snd (api GET ''/api/status'' \<lparr>getIdToken = None, fetched = Inr \<lparr>ok = False, status = 500,
        text_result = Inr [], json_result = Inr JNull\<rparr>\<rparr>) \<noteq> Inl (Error [])"
  by (simp add: api_def refreshIdToken_def not_ok_error_def String_nat.simps digit_char_def)

section \<open>Properties of the effects\<close>

lemmas handler_defs =
  boot_def run_route_def showLogin_def loginSubmit_def resolveRole_def onAuthStateChanged_def
  logout_def logout_admin_def beforeUnload_def attachLiveVideo_def checkAndSwap_def imgError_def
  startBrowserCamera_def sendFrame_def highThreat_def renderAdminDashboard_def adminStatusPoll_def
  renderPersonnelDashboard_def personnelStatusPoll_def renderAdminAlerts_def renderPending_def
  pendingDetection_def resolveAlert_def renderAdminActivity_def refresh_def renderAdminCameras_def
  addCamera_def renderAdminSettings_def renderPersonnelSettings_def saveLanguage_def addUser_def
  changePassword_def status_poll_failed_def

lemma request_paths_append [simp]: "request_paths (xs @ ys) = request_paths xs @ request_paths ys"
  by (induction xs rule: request_paths.induct) simp_all

lemma fetches_append [simp]: "fetches (xs @ ys) = fetches xs @ fetches ys"
  by (induction xs rule: fetches.induct) simp_all

lemma db_paths_append [simp]: "db_paths (xs @ ys) = db_paths xs @ db_paths ys"
  by (induction xs rule: db_paths.induct) simp_all

lemma intervals_append [simp]: "intervals (xs @ ys) = intervals xs @ intervals ys"
  by (induction xs rule: intervals.induct) simp_all

lemma timeouts_append [simp]: "timeouts (xs @ ys) = timeouts xs @ timeouts ys"
  by (induction xs rule: timeouts.induct) simp_all

lemma socket_events_append [simp]: "socket_events (xs @ ys) = socket_events xs @ socket_events ys"
  by (induction xs rule: socket_events.induct) simp_all

lemma surfaced_append [simp]: "surfaced (xs @ ys) = (surfaced xs \<or> surfaced ys)"
  by (induction xs rule: surfaced.induct) simp_all

text \<open>A property of single effects holds of a projection when it holds of every effect.\<close>

lemma request_paths_all:
  "list_all (\<lambda>e. set (request_paths [e]) \<subseteq> S) effs \<Longrightarrow> set (request_paths effs) \<subseteq> S"
  by (induction effs rule: request_paths.induct) simp_all

lemma socket_events_all:
  "list_all (\<lambda>e. set (socket_events [e]) \<subseteq> S) effs \<Longrightarrow> set (socket_events effs) \<subseteq> S"
  by (induction effs rule: socket_events.induct) simp_all

lemma intervals_all:
  "list_all (\<lambda>e. set (intervals [e]) \<subseteq> S) effs \<Longrightarrow> set (intervals effs) \<subseteq> S"
  by (induction effs rule: intervals.induct) simp_all

lemma db_paths_all:
  "list_all (\<lambda>e. set (db_paths [e]) \<subseteq> S) effs \<Longrightarrow> set (db_paths effs) \<subseteq> S"
  by (induction effs rule: db_paths.induct) simp_all

text \<open>What one call of \<open>api\<close> does: at most the one request, nothing else.\<close>

lemma api_all: "Q (Fetch m p) \<Longrightarrow> list_all Q (fst (api m p env))"
  by (simp add: api_def split: sum.splits)

lemma fetches_api: "fetches (fst (api m p env)) = [] \<or> fetches (fst (api m p env)) = [(m, p)]"
  by (simp add: api_def split: sum.splits)

lemma api_one_fetch:
  "fst (api method path env) = [] \<or> fst (api method path env) = [Fetch method path]"
  by (simp add: api_def split: sum.splits)

lemma api_fetch_with_token:
  "refreshIdToken (getIdToken env) = Inr tok \<Longrightarrow> fst (api m p env) = [Fetch m p]"
  by (simp add: api_def)

lemma api_not_surfaced [simp]: "\<not> surfaced (fst (api m p env))"
  by (simp add: api_def split: sum.splits)

lemma api_no_timers [simp]:
  "intervals (fst (api m p env)) = []" "timeouts (fst (api m p env)) = []"
  by (simp_all add: api_def split: sum.splits)

text \<open>
  Every effect of every event is one of the effects listed here: a property that holds
  of each of them holds of all effects of the front end.
\<close>

lemma step_all:
  assumes fetch:
      "Q (Fetch GET ''/api/status'')" "Q (Fetch POST ''/api/start_cameras'')"
      "Q (Fetch POST ''/api/stop_cameras'')" "Q (Fetch POST ''/api/upload_frame'')"
      "Q (Fetch GET ''/api/cameras'')" "Q (Fetch POST ''/api/cameras'')"
      "Q (Fetch POST ''/api/alerts/resolve'')" "Q (Fetch POST ''/api/user_language'')"
      "Q (Fetch POST ''/api/add_user'')"
    and beacon: "Q (SendBeacon ''/api/check_stop_cameras'')"
    and image: "Q (ImgSrc PLACEHOLDER_SRC)" "\<And>now. Q (ImgSrc (LIVE_SRC now))"
    and db: "\<And>uid. Q (DbGet (''/users/'' @ uid))" "Q (DbGet ''/detections'')"
      "Q (DbGet ''/activeAdmins'')" "\<And>uid. Q (DbSet (''/activeAdmins/'' @ uid) (JBool True))"
      "\<And>uid. Q (DbOnDisconnectRemove (''/activeAdmins/'' @ uid))"
      "\<And>p. adminPresenceRef st = Some p \<Longrightarrow> Q (DbRemove p)"
    and socket: "Q (SocketConnect ''/stream'')" "Q (SocketOn ''pending_detection'' PendingDetection)"
      "Q (SocketOn ''high_threat'' HighThreat)"
    and timer: "Q (SetInterval CheckAndSwap 2000)" "Q (SetInterval AdminStatusPoll 2000)"
      "Q (SetInterval PersonnelStatusPoll 2000)" "Q (SetTimeout SendFrame 1000)"
    and other: "\<And>s. Q (Alert s)" "\<And>l a. Q (Console l a)" "\<And>t. Q (Listen t)" "\<And>t. Q (Spawn t)"
      "Q ClearPageIntervals" "\<And>s. Q (SetContent s)" "\<And>h. Q (SetHash h)" "\<And>b. Q (ShowLoader b)"
      "\<And>b. Q (SidebarVisible b)" "\<And>b. Q (MenuToggleVisible b)" "Q SirenPlay" "Q SignOut"
  shows "list_all Q (effects_of st ev)"
  by (cases ev)
    (simp_all add: effects_of_def handler_defs case_prod_beta Let_def api_all assms db [simplified]
       split: sum.splits option.splits route_action.splits jsval.splits list.splits)

lemma video_feed_not_fetched:
  "''/api/video_feed'' \<notin> set (request_paths (effects_of st ev))"
proof -
  have "set (request_paths (effects_of st ev)) \<subseteq> - {''/api/video_feed''}"
    by (rule request_paths_all, rule step_all) simp_all
  then show ?thesis by blast
qed

lemma handler_status_poll:
  "adminStatusPoll a env = (fst (api GET ''/api/status'' env), Inr ())"
  "personnelStatusPoll a env = (fst (api GET ''/api/status'' env), Inr ())"
  by (simp_all add: adminStatusPoll_def personnelStatusPoll_def case_prod_beta split: sum.splits)

text \<open>
  Claim C3. Every request the front end makes through \<open>api()\<close>/\<open>fetch\<close> or
  \<open>navigator.sendBeacon\<close>, in any event and any state, goes to one of /api/status,
  /api/start_cameras, /api/stop_cameras, /api/check_stop_cameras, /api/video_feed,
  /api/upload_frame, /api/cameras, /api/alerts/resolve, /api/user_language, /api/add_user.
  The only Socket.IO events it subscribes to are pending_detection and high_threat; the
  script subscribes to both when it is loaded, on the socket it opens on the namespace
  /stream.
\<close>

theorem requests_target_endpoints:
  "set (request_paths (effects_of st ev)) \<subseteq>
     {''/api/status'', ''/api/start_cameras'', ''/api/stop_cameras'', ''/api/check_stop_cameras'',
      ''/api/video_feed'', ''/api/upload_frame'', ''/api/cameras'', ''/api/alerts/resolve'',
      ''/api/user_language'', ''/api/add_user''}
   \<and> set (socket_events (effects_of st ev)) \<subseteq> {''pending_detection'', ''high_threat''}
   \<and> socket_events (boot location_hash logoutBtn) = [''pending_detection'', ''high_threat'']
   \<and> SocketConnect ''/stream'' \<in> set (boot location_hash logoutBtn)"
proof (intro conjI)
  show "set (request_paths (effects_of st ev)) \<subseteq>
     {''/api/status'', ''/api/start_cameras'', ''/api/stop_cameras'', ''/api/check_stop_cameras'',
      ''/api/video_feed'', ''/api/upload_frame'', ''/api/cameras'', ''/api/alerts/resolve'',
      ''/api/user_language'', ''/api/add_user''}"
    by (rule request_paths_all, rule step_all) simp_all
  show "set (socket_events (effects_of st ev)) \<subseteq> {''pending_detection'', ''high_threat''}"
    by (rule socket_events_all, rule step_all) simp_all
  show "socket_events (boot location_hash logoutBtn) = [''pending_detection'', ''high_threat'']"
    by (simp add: boot_def)
  show "SocketConnect ''/stream'' \<in> set (boot location_hash logoutBtn)"
    by (simp add: boot_def)
qed

theorem requests_target_endpoints_witness:
  "request_paths (effects_of init_app (AddCameraSubmit True status_one_camera offline))
     = [''/api/cameras'', ''/api/cameras'']
   \<and> request_paths (effects_of (init_app\<lparr>currentRole := JStr ''admin''\<rparr>) (Unload (Inr ())))
     = [''/api/check_stop_cameras'']
   \<and> socket_events (effects_of init_app (Boot [] True)) = [''pending_detection'', ''high_threat'']"
  using requests_target_endpoints [of init_app "AddCameraSubmit True status_one_camera offline" "[]" True]
    requests_target_endpoints [of "init_app\<lparr>currentRole := JStr ''admin''\<rparr>" "Unload (Inr ())" "[]" True]
  by (simp add: effects_of_def init_app_def offline_def status_one_camera_def handler_defs api_def
      refreshIdToken_def)

text \<open>
  Claim C4. The status endpoint is polled on a fixed interval. Every interval the front
  end registers, in any event, has the period 2000 ms and runs one of the three status
  polls; attachLiveVideo registers its poll, and the two dashboards register theirs when
  they have rendered. Each of the three polls requests nothing but GET /api/status, and
  requests it exactly once in every run in which the refresh of the token does not
  reject (\<open>api\<close> calls \<open>fetch\<close> only after the refresh).
\<close>

theorem status_polls_every_2000_ms:
  "set (intervals (effects_of st ev)) \<subseteq>
     {(CheckAndSwap, 2000), (AdminStatusPoll, 2000), (PersonnelStatusPoll, 2000)}
   \<and> intervals (fst attachLiveVideo) = [(CheckAndSwap, 2000)]
   \<and> (snd (renderAdminDashboard video alerts cam env) = Inr () \<longrightarrow>
        intervals (fst (renderAdminDashboard video alerts cam env))
          = (if video then [(CheckAndSwap, 2000)] else []) @ [(AdminStatusPoll, 2000)])
   \<and> (snd (renderPersonnelDashboard alerts cam env) = Inr () \<longrightarrow>
        intervals (fst (renderPersonnelDashboard alerts cam env)) = [(PersonnelStatusPoll, 2000)])
   \<and> set (fetches (fst (checkAndSwap conv imgEl now env))) \<subseteq> {(GET, ''/api/status'')}
   \<and> set (fetches (fst (adminStatusPoll alerts env))) \<subseteq> {(GET, ''/api/status'')}
   \<and> set (fetches (fst (personnelStatusPoll alerts env))) \<subseteq> {(GET, ''/api/status'')}
   \<and> (refreshIdToken (getIdToken env) = Inr tok \<longrightarrow>
        fetches (fst (checkAndSwap conv imgEl now env)) = [(GET, ''/api/status'')]
        \<and> fetches (fst (adminStatusPoll alerts env)) = [(GET, ''/api/status'')]
        \<and> fetches (fst (personnelStatusPoll alerts env)) = [(GET, ''/api/status'')])"
proof (intro conjI impI)
  show "set (intervals (effects_of st ev)) \<subseteq>
     {(CheckAndSwap, 2000), (AdminStatusPoll, 2000), (PersonnelStatusPoll, 2000)}"
    by (rule intervals_all, rule step_all) simp_all
  show "intervals (fst attachLiveVideo) = [(CheckAndSwap, 2000)]"
    by (simp add: attachLiveVideo_def)
  show "intervals (fst (renderAdminDashboard video alerts cam env))
          = (if video then [(CheckAndSwap, 2000)] else []) @ [(AdminStatusPoll, 2000)]"
    if "snd (renderAdminDashboard video alerts cam env) = Inr ()"
    using that
    by (auto simp: renderAdminDashboard_def attachLiveVideo_def case_prod_beta Let_def
        split: sum.splits if_splits)
  show "intervals (fst (renderPersonnelDashboard alerts cam env)) = [(PersonnelStatusPoll, 2000)]"
    if "snd (renderPersonnelDashboard alerts cam env) = Inr ()"
    using that
    by (auto simp: renderPersonnelDashboard_def case_prod_beta Let_def split: sum.splits if_splits)
  show "set (fetches (fst (checkAndSwap conv imgEl now env))) \<subseteq> {(GET, ''/api/status'')}"
    using fetches_api [of GET "''/api/status''" env]
    by (auto simp: checkAndSwap_def status_poll_failed_def case_prod_beta Let_def
        split: sum.splits option.splits)
  show "set (fetches (fst (adminStatusPoll alerts env))) \<subseteq> {(GET, ''/api/status'')}"
    using fetches_api [of GET "''/api/status''" env] by (auto simp: handler_status_poll)
  show "set (fetches (fst (personnelStatusPoll alerts env))) \<subseteq> {(GET, ''/api/status'')}"
    using fetches_api [of GET "''/api/status''" env] by (auto simp: handler_status_poll)
next
  assume tok: "refreshIdToken (getIdToken env) = Inr tok"
  show "fetches (fst (checkAndSwap conv imgEl now env)) = [(GET, ''/api/status'')]"
    using api_fetch_with_token [OF tok, of GET "''/api/status''"]
    by (auto simp: checkAndSwap_def status_poll_failed_def case_prod_beta Let_def
        split: sum.splits option.splits)
  show "fetches (fst (adminStatusPoll alerts env)) = [(GET, ''/api/status'')]"
    using api_fetch_with_token [OF tok, of GET "''/api/status''"] by (simp add: handler_status_poll)
  show "fetches (fst (personnelStatusPoll alerts env)) = [(GET, ''/api/status'')]"
    using api_fetch_with_token [OF tok, of GET "''/api/status''"] by (simp add: handler_status_poll)
qed

theorem status_polls_every_2000_ms_witness:
  "snd (renderAdminDashboard True status_page False status_one_camera) = Inr ()
   \<and> intervals (fst (renderAdminDashboard True status_page False status_one_camera))
       = [(CheckAndSwap, 2000), (AdminStatusPoll, 2000)]
   \<and> snd (renderPersonnelDashboard status_page False status_one_camera) = Inr ()
   \<and> intervals (fst (renderPersonnelDashboard status_page False status_one_camera))
       = [(PersonnelStatusPoll, 2000)]
   \<and> refreshIdToken (getIdToken status_one_camera) = Inr (Some ''token'')
   \<and> fetches (fst (checkAndSwap (\<lambda>v. None) \<lparr>src = ''/static/placeholder.jpg'', live = ''0''\<rparr> 3000
        status_one_camera)) = [(GET, ''/api/status'')]
   \<and> fetches (fst (adminStatusPoll status_page status_one_camera)) = [(GET, ''/api/status'')]
   \<and> fetches (fst (personnelStatusPoll status_page status_one_camera)) = [(GET, ''/api/status'')]"
  using status_polls_every_2000_ms [where video = True and alerts = status_page and cam = False
      and env = status_one_camera and tok = "Some ''token''" and conv = "\<lambda>v. None"
      and imgEl = "\<lparr>src = ''/static/placeholder.jpg'', live = ''0''\<rparr>" and now = 3000]
  by (simp add: status_one_camera_def status_page_def handler_defs api_def refreshIdToken_def
      show_status_def renderAlertsToday_def Let_def)

section \<open>Properties of failures\<close>

lemma sendFrame_timers:
  "timeouts (fst (sendFrame ready env sirenEl now l0)) = [(SendFrame, 1000)]"
  "intervals (fst (sendFrame ready env sirenEl now l0)) = []"
  by (simp_all add: sendFrame_def case_prod_beta split: sum.splits)

lemma imgError_cases:
  "imgError imgEl
     = (if live imgEl = ''1''
        then ([ImgSrc ''/static/placeholder.jpg''], \<lparr>src = ''/static/placeholder.jpg'', live = ''0''\<rparr>)
        else ([], imgEl))"
  by (simp add: imgError_def PLACEHOLDER_SRC_def)

lemma js_prop_not_nullish: "js_prop data k = JNum a \<Longrightarrow> \<not> nullish data"
  by (cases data) simp_all

text \<open>
  Claim C5, amended. No retry or backoff is implemented for \<open>api()\<close> requests, frame
  uploads and webcam access. One call of \<open>api\<close> issues at most one \<open>fetch\<close>. On a
  failed request every caller of \<open>api\<close> does nothing more than this: the frame uploader
  logs, leaves \<open>lastSirenAt\<close> as it was and arms its 1000 ms timer, the timer it arms in
  every run; the status poll of attachLiveVideo logs and leaves the image as it was; the
  polls of the dashboards end; the renderers of the dashboards and of the cameras,
  \<open>refresh\<close> and the handlers that resolve an alert, add a camera, save the language or
  add a user reject with the error of the request and do nothing after it; the handlers
  of sign-in and of logout go on after the request with the same effects and the same
  state as after a successful one, but for the line they log. A failed webcam access is logged and
  nothing else is done. The one recovery is in attachLiveVideo: when the image fails to
  load while it shows the live feed, its error handler falls back to the placeholder
  image and marks the image as not live (otherwise it does nothing), and a later status
  poll that reports a positive number of active cameras requests the feed again.
\<close>

theorem no_retry_image_fallback:
  "(fst (api method path env) = [] \<or> fst (api method path env) = [Fetch method path])
   \<and> (snd (api POST ''/api/upload_frame'' env) = Inl err \<longrightarrow>
        sendFrame True env sirenEl now l0
          = (fst (api POST ''/api/upload_frame'' env)
             @ [Console Err [Text ''upload_frame failed'', Text (message err)],
                SetTimeout SendFrame 1000],
             l0))
   \<and> timeouts (fst (sendFrame ready env sirenEl now l0)) = [(SendFrame, 1000)]
   \<and> intervals (fst (sendFrame ready env sirenEl now l0)) = []
   \<and> startBrowserCamera (Inl err)
       = ([Console Err [Text ''Could not access webcam:'', Thrown err]], Inr ())
   \<and> (snd (api GET ''/api/status'' env) = Inl err \<longrightarrow>
        checkAndSwap conv imgEl now env
          = (fst (api GET ''/api/status'' env) @ [status_poll_failed err], imgEl))
   \<and> adminStatusPoll alerts env = (fst (api GET ''/api/status'' env), Inr ())
   \<and> personnelStatusPoll alerts env = (fst (api GET ''/api/status'' env), Inr ())
   \<and> (snd (api GET ''/api/status'' env) = Inl err \<longrightarrow>
        renderAdminDashboard video alerts cam env
          = (SetContent ''adminDashboardTpl'' # (if video then fst attachLiveVideo else [])
             @ fst (api GET ''/api/status'' env), Inl err)
        \<and> renderPersonnelDashboard alerts cam env
          = (SetContent ''personnelDashboardTpl'' # fst (api GET ''/api/status'' env), Inl err))
   \<and> (snd (api POST ''/api/alerts/resolve'' env) = Inl err
        \<and> js_prop payload ''detections'' = JArr (d # ds) \<and> \<not> nullish d \<longrightarrow>
        resolveAlert payload env = (fst (api POST ''/api/alerts/resolve'' env), Inl err))
   \<and> (snd (api GET ''/api/cameras'' env) = Inl err \<longrightarrow>
        refresh cameraList env = (fst (api GET ''/api/cameras'' env), Inl err)
        \<and> renderAdminCameras cameraList env
          = (SetContent ''adminCamerasTpl'' # fst (api GET ''/api/cameras'' env), Inl err))
   \<and> (snd (api POST ''/api/cameras'' env) = Inl err \<longrightarrow>
        addCamera cameraList env env' = (fst (api POST ''/api/cameras'' env), Inl err))
   \<and> (snd (api POST ''/api/cameras'' env) = Inr v \<and> snd (api GET ''/api/cameras'' env') = Inl err \<longrightarrow>
        addCamera cameraList env env'
          = (fst (api POST ''/api/cameras'' env) @ fst (api GET ''/api/cameras'' env'), Inl err))
   \<and> (snd (api POST ''/api/user_language'' env) = Inl err \<longrightarrow>
        saveLanguage env = (fst (api POST ''/api/user_language'' env), Inl err))
   \<and> (snd (api POST ''/api/add_user'' env) = Inl err \<longrightarrow>
        addUser env = (fst (api POST ''/api/add_user'' env), Inl err))
   \<and> (snd (resolveRole uid (user_snap aenv)) = Inr (JStr ''admin'') \<and> presence_set aenv = Inr () \<longrightarrow>
        onAuthStateChanged st (Some uid) aenv
          = ([DbGet (''/users/'' @ uid), DbSet (''/activeAdmins/'' @ uid) (JBool True),
              DbOnDisconnectRemove (''/activeAdmins/'' @ uid)]
             @ fst (api POST ''/api/start_cameras'' (start_cameras aenv))
             @ [case snd (api POST ''/api/start_cameras'' (start_cameras aenv)) of
                  Inl e \<Rightarrow> Console Err [Text ''Could not start cameras:'', Thrown e]
                | Inr u \<Rightarrow> Console Log [Text ''Cameras started'']]
             @ [SidebarVisible True, MenuToggleVisible True, Spawn Route],
             st\<lparr>currentUser := Some uid, currentRole := JStr ''admin'',
                adminPresenceRef := Some (''/activeAdmins/'' @ uid)\<rparr>,
             Inr ()))
   \<and> (currentRole st = JStr ''admin''
        \<and> (adminPresenceRef st = None \<or> logout_remove lenv = Inr ())
        \<and> activeAdmins_exists lenv = Inr False \<longrightarrow>
        logout st lenv
          = ((case adminPresenceRef st of None \<Rightarrow> [] | Some p \<Rightarrow> [DbRemove p])
             @ [DbGet ''/activeAdmins'']
             @ fst (api POST ''/api/stop_cameras'' (stop_cameras lenv))
             @ [case snd (api POST ''/api/stop_cameras'' (stop_cameras lenv)) of
                  Inl e \<Rightarrow> Console Err [Text ''Could not stop cameras:'', Thrown e]
                | Inr u \<Rightarrow> Console Log [Text ''Cameras stopped (last admin logged out)'']]
             @ (case signOut lenv of
                  Inl e \<Rightarrow> [SignOut]
                | Inr u \<Rightarrow> [SignOut, MenuToggleVisible False]),
             (if adminPresenceRef st = None then st else st\<lparr>adminPresenceRef := None\<rparr>),
             (case signOut lenv of Inl e \<Rightarrow> Inl e | Inr u \<Rightarrow> Inr ())))
   \<and> imgError imgEl
       = (if live imgEl = ''1''
          then ([ImgSrc ''/static/placeholder.jpg''], \<lparr>src = ''/static/placeholder.jpg'', live = ''0''\<rparr>)
          else ([], imgEl))
   \<and> (snd (api GET ''/api/status'' env) = Inr data \<and> js_prop data ''camerasActive'' = JNum a
        \<and> 0 < a \<and> live imgEl \<noteq> ''1'' \<longrightarrow>
        checkAndSwap conv imgEl now env
          = (fst (api GET ''/api/status'' env) @ [ImgSrc (LIVE_SRC now)],
             \<lparr>src = LIVE_SRC now, live = ''1''\<rparr>))"
  by (intro conjI impI; (elim conjE)?)
    (auto simp: handler_defs handler_status_poll api_one_fetch sendFrame_timers PLACEHOLDER_SRC_def
       case_prod_beta Let_def
       split: option.splits sum.splits dest: js_prop_not_nullish)

theorem no_retry_image_fallback_witness:
  "snd (api POST ''/api/upload_frame'' offline) = Inl (Error ''Failed to fetch'')
   \<and> sendFrame True offline True 9000 0
       = ([Fetch POST ''/api/upload_frame'',
           Console Err [Text ''upload_frame failed'', Text ''Failed to fetch''],
           SetTimeout SendFrame 1000], 0)
   \<and> checkAndSwap (\<lambda>v. None) \<lparr>src = ''/api/video_feed?ts=1000'', live = ''1''\<rparr> 9000 offline
       = ([Fetch GET ''/api/status'',
           Console Debug [Text ''status poll failed'', Text ''Failed to fetch'']],
          \<lparr>src = ''/api/video_feed?ts=1000'', live = ''1''\<rparr>)
   \<and> addUser offline = ([Fetch POST ''/api/add_user''], Inl (Error ''Failed to fetch''))
   \<and> js_prop weapon_alert ''detections''
       = JArr [JObj [(''label'', JStr ''weapon''), (''conf'', JNum 0.9)]]
   \<and> resolveAlert weapon_alert offline
       = ([Fetch POST ''/api/alerts/resolve''], Inl (Error ''Failed to fetch''))
   \<and> snd (resolveRole ''u1'' (user_snap admin_sign_in)) = Inr (JStr ''admin'')
   \<and> presence_set admin_sign_in = Inr ()
   \<and> fst (onAuthStateChanged (init_app\<lparr>currentRole := JStr ''admin''\<rparr>) (Some ''u1'')
            admin_sign_in)
       = [DbGet ''/users/u1'', DbSet ''/activeAdmins/u1'' (JBool True),
          DbOnDisconnectRemove ''/activeAdmins/u1'', Fetch POST ''/api/start_cameras'',
          Console Err [Text ''Could not start cameras:'', Thrown (Error ''Failed to fetch'')],
          SidebarVisible True, MenuToggleVisible True, Spawn Route]
   \<and> currentRole (init_app\<lparr>currentRole := JStr ''admin''\<rparr>) = JStr ''admin''
   \<and> activeAdmins_exists last_admin_out = Inr False
   \<and> fst (logout (init_app\<lparr>currentRole := JStr ''admin''\<rparr>) last_admin_out)
       = [DbGet ''/activeAdmins'', Fetch POST ''/api/stop_cameras'',
          Console Err [Text ''Could not stop cameras:'', Thrown (Error ''Failed to fetch'')],
          SignOut, MenuToggleVisible False]
   \<and> snd (api GET ''/api/status'' status_one_camera)
       = Inr (JObj [(''status'', JBool True), (''camerasActive'', JNum 1)])
   \<and> checkAndSwap (\<lambda>v. None) \<lparr>src = ''/static/placeholder.jpg'', live = ''0''\<rparr> 3000
        status_one_camera
       = ([Fetch GET ''/api/status'', ImgSrc (LIVE_SRC 3000)], \<lparr>src = LIVE_SRC 3000, live = ''1''\<rparr>)"
  using no_retry_image_fallback [where env = offline and err = "Error ''Failed to fetch''"
      and sirenEl = True and now = 9000 and ?l0.0 = 0 and conv = "\<lambda>v. None"
      and imgEl = "\<lparr>src = ''/api/video_feed?ts=1000'', live = ''1''\<rparr>"
      and payload = weapon_alert
      and d = "JObj [(''label'', JStr ''weapon''), (''conf'', JNum 0.9)]" and ds = "[]"
      and uid = "''u1''" and aenv = admin_sign_in and st = "init_app\<lparr>currentRole := JStr ''admin''\<rparr>"
      and lenv = last_admin_out]
    no_retry_image_fallback [where env = status_one_camera and conv = "\<lambda>v. None"
      and imgEl = "\<lparr>src = ''/static/placeholder.jpg'', live = ''0''\<rparr>" and now = 3000
      and data = "JObj [(''status'', JBool True), (''camerasActive'', JNum 1)]" and a = 1]
  by (simp add: init_app_def offline_def status_one_camera_def admin_sign_in_def
      last_admin_out_def weapon_alert_def handler_defs api_def refreshIdToken_def Let_def)

text \<open>
  The claim as first stated fails for the live image: after the request for the video
  feed has failed, the error handler puts the placeholder in its place, and the next
  status poll that reports an active camera requests the feed again.
\<close>

theorem image_fallback_counterexample:
  "imgError \<lparr>src = ''/api/video_feed?ts=1000'', live = ''1''\<rparr>
     = ([ImgSrc ''/static/placeholder.jpg''], \<lparr>src = ''/static/placeholder.jpg'', live = ''0''\<rparr>)
   \<and> checkAndSwap (\<lambda>v. None) \<lparr>src = ''/static/placeholder.jpg'', live = ''0''\<rparr> 3000
        status_one_camera
     = ([Fetch GET ''/api/status'', ImgSrc ''/api/video_feed?ts=3000''],
        \<lparr>src = ''/api/video_feed?ts=3000'', live = ''1''\<rparr>)"
  by (simp add: imgError_def PLACEHOLDER_SRC_def checkAndSwap_def status_one_camera_def api_def
      refreshIdToken_def LIVE_SRC_def String_int_def String_nat.simps digit_char_def)

text \<open>
  Claim C1, amended. A failed sign-in and a failed change of password are shown with
  \<open>alert()\<close>. A failed webcam access, a failed frame upload, a failed request to start
  or stop the cameras and a failed status poll of attachLiveVideo are written to the
  console. The repeating status polls of the two dashboards catch every error and drop
  it: they neither alert nor log, and their promise is fulfilled. A failed \<open>api()\<close>
  request anywhere else (the first status request of the dashboards, resolving an alert,
  listing or adding cameras, saving the language, adding a user) is not caught: the
  function rejects with that error and itself neither alerts nor logs.
\<close>

theorem errors_alerted_logged_or_dropped:
  "Alert (message err) \<in> set (fst (loginSubmit (Inl err)))
   \<and> Alert (''Error updating password: '' @ message err)
        \<in> set (fst (changePassword True (Inl err) updated))
   \<and> Alert (''Error updating password: '' @ message err)
        \<in> set (fst (changePassword True (Inr ()) (Inl err)))
   \<and> Console Err [Text ''Could not access webcam:'', Thrown err]
        \<in> set (fst (startBrowserCamera (Inl err)))
   \<and> (snd (api POST ''/api/upload_frame'' env) = Inl err \<longrightarrow>
        Console Err [Text ''upload_frame failed'', Text (message err)]
          \<in> set (fst (sendFrame True env sirenEl now l0)))
   \<and> (snd (api GET ''/api/status'' env) = Inl err \<longrightarrow>
        Console Debug [Text ''status poll failed'',
                       if message err \<noteq> [] then Text (message err) else Thrown err]
          \<in> set (fst (checkAndSwap conv imgEl now env)))
   \<and> (snd (resolveRole uid (user_snap aenv)) = Inr (JStr ''admin'') \<and> presence_set aenv = Inr ()
        \<and> snd (api POST ''/api/start_cameras'' (start_cameras aenv)) = Inl err \<longrightarrow>
        Console Err [Text ''Could not start cameras:'', Thrown err]
          \<in> set (fst (onAuthStateChanged st (Some uid) aenv)))
   \<and> (currentRole st = JStr ''admin''
        \<and> (adminPresenceRef st = None \<or> logout_remove lenv = Inr ())
        \<and> activeAdmins_exists lenv = Inr False
        \<and> snd (api POST ''/api/stop_cameras'' (stop_cameras lenv)) = Inl err \<longrightarrow>
        Console Err [Text ''Could not stop cameras:'', Thrown err] \<in> set (fst (logout st lenv)))
   \<and> snd (adminStatusPoll alerts env) = Inr () \<and> \<not> surfaced (fst (adminStatusPoll alerts env))
   \<and> snd (personnelStatusPoll alerts env) = Inr ()
   \<and> \<not> surfaced (fst (personnelStatusPoll alerts env))
   \<and> (snd (api GET ''/api/status'' env) = Inl err \<longrightarrow>
        snd (renderAdminDashboard video alerts cam env) = Inl err
        \<and> \<not> surfaced (fst (renderAdminDashboard video alerts cam env))
        \<and> snd (renderPersonnelDashboard alerts cam env) = Inl err
        \<and> \<not> surfaced (fst (renderPersonnelDashboard alerts cam env)))
   \<and> (snd (api POST ''/api/alerts/resolve'' env) = Inl err
        \<and> js_prop payload ''detections'' = JArr (d # ds) \<and> \<not> nullish d \<longrightarrow>
        snd (resolveAlert payload env) = Inl err \<and> \<not> surfaced (fst (resolveAlert payload env)))
   \<and> (snd (api GET ''/api/cameras'' env) = Inl err \<longrightarrow>
        snd (renderAdminCameras cameraList env) = Inl err
        \<and> \<not> surfaced (fst (renderAdminCameras cameraList env)))
   \<and> (snd (api POST ''/api/cameras'' env) = Inl err \<longrightarrow>
        snd (addCamera cameraList env env') = Inl err
        \<and> \<not> surfaced (fst (addCamera cameraList env env')))
   \<and> (snd (api POST ''/api/user_language'' env) = Inl err \<longrightarrow>
        snd (saveLanguage env) = Inl err \<and> \<not> surfaced (fst (saveLanguage env)))
   \<and> (snd (api POST ''/api/add_user'' env) = Inl err \<longrightarrow>
        snd (addUser env) = Inl err \<and> \<not> surfaced (fst (addUser env)))"
  by (intro conjI impI; (elim conjE)?)
    (auto simp: handler_defs handler_status_poll case_prod_beta Let_def
       split: option.splits sum.splits)

theorem errors_alerted_logged_or_dropped_witness:
  "snd (api POST ''/api/upload_frame'' offline) = Inl (Error ''Failed to fetch'')
   \<and> fst (sendFrame True offline True 0 0)
       = [Fetch POST ''/api/upload_frame'',
          Console Err [Text ''upload_frame failed'', Text ''Failed to fetch''],
          SetTimeout SendFrame 1000]
   \<and> snd (resolveRole ''u1'' (user_snap admin_sign_in)) = Inr (JStr ''admin'')
   \<and> presence_set admin_sign_in = Inr ()
   \<and> Console Err [Text ''Could not start cameras:'', Thrown (Error ''Failed to fetch'')]
        \<in> set (fst (onAuthStateChanged (init_app\<lparr>currentRole := JStr ''admin''\<rparr>) (Some ''u1'')
                      admin_sign_in))
   \<and> currentRole (init_app\<lparr>currentRole := JStr ''admin''\<rparr>) = JStr ''admin''
   \<and> adminPresenceRef (init_app\<lparr>currentRole := JStr ''admin''\<rparr>) = None
   \<and> activeAdmins_exists last_admin_out = Inr False
   \<and> Console Err [Text ''Could not stop cameras:'', Thrown (Error ''Failed to fetch'')]
        \<in> set (fst (logout (init_app\<lparr>currentRole := JStr ''admin''\<rparr>) last_admin_out))
   \<and> js_prop weapon_alert ''detections''
       = JArr [JObj [(''label'', JStr ''weapon''), (''conf'', JNum 0.9)]]
   \<and> \<not> nullish (JObj [(''label'', JStr ''weapon''), (''conf'', JNum 0.9)])
   \<and> resolveAlert weapon_alert offline
       = ([Fetch POST ''/api/alerts/resolve''], Inl (Error ''Failed to fetch''))
   \<and> renderAdminDashboard False status_page False offline
       = ([SetContent ''adminDashboardTpl'', Fetch GET ''/api/status''], Inl (Error ''Failed to fetch''))"
  using errors_alerted_logged_or_dropped [where err = "Error ''Failed to fetch''" and env = offline
      and sirenEl = True and now = 0 and ?l0.0 = 0 and uid = "''u1''" and aenv = admin_sign_in
      and st = "init_app\<lparr>currentRole := JStr ''admin''\<rparr>" and lenv = last_admin_out
      and alerts = status_page and video = False and cam = False and payload = weapon_alert
      and d = "JObj [(''label'', JStr ''weapon''), (''conf'', JNum 0.9)]" and ds = "[]"]
  by (simp add: offline_def admin_sign_in_def last_admin_out_def weapon_alert_def init_app_def
      handler_defs api_def refreshIdToken_def Let_def)

text \<open>
  The claim as first stated fails for the status poll of the admin dashboard: the request
  fails, the poll ends normally, and nothing is alerted or logged.
\<close>

theorem status_poll_error_dropped_counterexample:
  "snd (api GET ''/api/status'' offline) = Inl (Error ''Failed to fetch'')
   \<and> adminStatusPoll status_page offline = ([Fetch GET ''/api/status''], Inr ())
   \<and> \<not> surfaced (fst (adminStatusPoll status_page offline))"
  by (simp add: adminStatusPoll_def offline_def api_def refreshIdToken_def)

section \<open>Properties of the database accesses\<close>

lemma presence_ok_auth:
  "presence_ok st \<Longrightarrow> presence_ok (fst (snd (onAuthStateChanged st user env)))"
  by (auto simp: onAuthStateChanged_def resolveRole_def presence_ok_def case_prod_beta Let_def
      split: sum.splits option.splits)

lemma presence_ok_logout:
  "presence_ok st \<Longrightarrow> presence_ok (fst (snd (logout st env)))"
  by (auto simp: logout_def logout_admin_def presence_ok_def case_prod_beta Let_def
      split: sum.splits option.splits)

lemma presence_ok_unload:
  "presence_ok st \<Longrightarrow> presence_ok (snd (beforeUnload st removed))"
  by (auto simp: beforeUnload_def presence_ok_def split: sum.splits option.splits)

lemma presence_ok_step: "presence_ok st \<Longrightarrow> presence_ok (state_after st ev)"
  by (cases ev)
    (simp_all add: state_after_def presence_ok_auth presence_ok_logout presence_ok_unload
       case_prod_beta, simp_all add: presence_ok_def)

lemma presence_ok_run: "presence_ok st \<Longrightarrow> presence_ok (run_events st evs)"
  by (induction evs arbitrary: st) (simp_all add: presence_ok_step)

lemma presence_ok_path:
  assumes "presence_ok st" "adminPresenceRef st = Some p"
  shows "\<exists>uid. p = ''/activeAdmins/'' @ uid"
proof -
  from assms have "take 14 p = ''/activeAdmins/''" by (simp add: presence_ok_def)
  then have "p = ''/activeAdmins/'' @ drop 14 p" by (metis append_take_drop_id)
  then show ?thesis ..
qed

lemma db_paths_listed:
  assumes "presence_ok st"
  shows "set (db_paths (effects_of st ev)) \<subseteq>
     {p. (\<exists>uid. p = ''/users/'' @ uid) \<or> p = ''/detections'' \<or> p = ''/activeAdmins''
         \<or> (\<exists>uid. p = ''/activeAdmins/'' @ uid)}"
proof (rule db_paths_all, rule step_all)
  fix p assume "adminPresenceRef st = Some p"
  from presence_ok_path [OF assms this]
  show "set (db_paths [DbRemove p]) \<subseteq>
     {p. (\<exists>uid. p = ''/users/'' @ uid) \<or> p = ''/detections'' \<or> p = ''/activeAdmins''
         \<or> (\<exists>uid. p = ''/activeAdmins/'' @ uid)}"
    by simp
qed simp_all

lemma under_family_listed:
  assumes "(\<exists>uid. p = ''/users/'' @ uid) \<or> p = ''/detections'' \<or> p = ''/activeAdmins''
     \<or> (\<exists>uid. p = ''/activeAdmins/'' @ uid)"
  shows "under_family p"
  using assms
proof (elim disjE exE)
  fix uid assume "p = ''/users/'' @ uid"
  then have "take 7 p = ''/users/''" by simp
  then show ?thesis by (simp add: under_family_def)
next
  assume "p = ''/detections''"
  then show ?thesis by (simp add: under_family_def)
next
  assume "p = ''/activeAdmins''"
  then show ?thesis by (simp add: under_family_def)
next
  fix uid assume "p = ''/activeAdmins/'' @ uid"
  then have "take 14 p = ''/activeAdmins/''" by simp
  then show ?thesis by (simp add: under_family_def)
qed

lemma db_writes:
  "list_all (\<lambda>e. \<forall>p v. e = DbSet p v \<longrightarrow> v = JBool True \<and> take 14 p = ''/activeAdmins/'')
     (effects_of st ev)"
  by (rule step_all) simp_all

lemma renderAdminActivity_effects:
  "fst (renderAdminActivity snap tbody) = [SetContent ''adminActivityTpl'', DbGet ''/detections'']"
  by (simp add: renderAdminActivity_def)

lemma renderAdminActivity_outcomes:
  "snd (renderAdminActivity (Inr v) tbody) = Inr ()
   \<or> snd (renderAdminActivity (Inr v) tbody) = Inl engine_TypeError"
  by (simp add: renderAdminActivity_def Let_def)

lemma renderAdminActivity_accepts:
  "\<forall>r \<in> set (object_values v).
      \<not> nullish r \<and> \<not> unprintable (js_prop r ''name'') \<and> \<not> unprintable (js_prop r ''time'')
      \<and> \<not> unprintable (js_prop r ''camera'') \<and> \<not> unprintable (js_prop r ''threatLevel'')
      \<and> \<not> unprintable (js_prop r ''status'') \<Longrightarrow>
   snd (renderAdminActivity (Inr v) tbody) = Inr ()"
  by (auto simp: renderAdminActivity_def Let_def list_ex_iff activity_row_throws_def)

text \<open>
  Claim C2, amended. Every path of the Realtime Database that the front end reads or
  writes, in any event after any sequence of events from the start of the script, is
  /users/<uid>, /detections, /activeAdmins or /activeAdmins/<uid>, and so lies under one
  of the record families users, detections, cameras, activeAdmins. The only value it
  writes is \<open>true\<close>, at /activeAdmins/<uid>. It enforces no invariant on the records
  that resolveRole and renderAdminActivity read. resolveRole reads the record of the user
  and never fails on what is stored.
  renderAdminActivity reads the detections and does nothing else to the outside; it ends
  normally on every stored value in which no row is \<open>null\<close> and none of the fields
  name, time, camera, threatLevel, status of a row is a value that cannot be converted
  to a string, whichever of these fields are present or absent, and when it fails the
  error is the TypeError of the engine. resolveRole returns the stored role unchanged
  when the record and its role are truthy; otherwise it applies a client-side default
  and returns personnel.
\<close>

theorem database_paths_and_role_default:
  "(\<forall>p \<in> set (db_paths (effects_of (run_events init_app evs) ev)).
      ((\<exists>uid. p = ''/users/'' @ uid) \<or> p = ''/detections'' \<or> p = ''/activeAdmins''
        \<or> (\<exists>uid. p = ''/activeAdmins/'' @ uid))
      \<and> under_family p)
   \<and> (DbSet p w \<in> set (effects_of st ev) \<longrightarrow> w = JBool True \<and> take 14 p = ''/activeAdmins/'')
   \<and> resolveRole uid (Inr v)
       = ([DbGet (''/users/'' @ uid)],
          Inr (if truthy v \<and> truthy (js_prop v ''role'') then js_prop v ''role''
               else JStr ''personnel''))
   \<and> fst (renderAdminActivity snap tbody) = [SetContent ''adminActivityTpl'', DbGet ''/detections'']
   \<and> (snd (renderAdminActivity (Inr v) tbody) = Inr ()
        \<or> snd (renderAdminActivity (Inr v) tbody) = Inl engine_TypeError)
   \<and> ((\<forall>r \<in> set (object_values v).
          \<not> nullish r \<and> \<not> unprintable (js_prop r ''name'') \<and> \<not> unprintable (js_prop r ''time'')
          \<and> \<not> unprintable (js_prop r ''camera'') \<and> \<not> unprintable (js_prop r ''threatLevel'')
          \<and> \<not> unprintable (js_prop r ''status'')) \<longrightarrow>
        snd (renderAdminActivity (Inr v) tbody) = Inr ())"
proof (intro conjI impI ballI)
  fix q assume q: "q \<in> set (db_paths (effects_of (run_events init_app evs) ev))"
  have "presence_ok init_app" by (simp add: presence_ok_def init_app_def)
  then have "presence_ok (run_events init_app evs)" by (rule presence_ok_run)
  from db_paths_listed [OF this, of ev] q
  have "q \<in> {p. (\<exists>uid. p = ''/users/'' @ uid) \<or> p = ''/detections'' \<or> p = ''/activeAdmins''
         \<or> (\<exists>uid. p = ''/activeAdmins/'' @ uid)}"
    by (rule subsetD)
  then show l: "(\<exists>uid. q = ''/users/'' @ uid) \<or> q = ''/detections'' \<or> q = ''/activeAdmins''
        \<or> (\<exists>uid. q = ''/activeAdmins/'' @ uid)"
    by (simp only: mem_Collect_eq)
  then show "under_family q" by (rule under_family_listed)
next
  assume "DbSet p w \<in> set (effects_of st ev)"
  with db_writes [of st ev] have w: "w = JBool True \<and> take 14 p = ''/activeAdmins/''"
    unfolding list_all_iff by blast
  from w show "w = JBool True" ..
  from w show "take 14 p = ''/activeAdmins/''" ..
next
  show "resolveRole uid (Inr v)
       = ([DbGet (''/users/'' @ uid)],
          Inr (if truthy v \<and> truthy (js_prop v ''role'') then js_prop v ''role''
               else JStr ''personnel''))"
    by (simp add: resolveRole_def Let_def)
next
  show "fst (renderAdminActivity snap tbody) = [SetContent ''adminActivityTpl'', DbGet ''/detections'']"
    by (rule renderAdminActivity_effects)
next
  show "snd (renderAdminActivity (Inr v) tbody) = Inr ()
        \<or> snd (renderAdminActivity (Inr v) tbody) = Inl engine_TypeError"
    by (rule renderAdminActivity_outcomes)
next
  assume "\<forall>r \<in> set (object_values v).
          \<not> nullish r \<and> \<not> unprintable (js_prop r ''name'') \<and> \<not> unprintable (js_prop r ''time'')
          \<and> \<not> unprintable (js_prop r ''camera'') \<and> \<not> unprintable (js_prop r ''threatLevel'')
          \<and> \<not> unprintable (js_prop r ''status'')"
  then show "snd (renderAdminActivity (Inr v) tbody) = Inr ()"
    by (rule renderAdminActivity_accepts)
qed

theorem database_paths_and_role_default_witness:
  "db_paths (effects_of (run_events init_app [AuthState (Some ''u1'') admin_sign_in])
        (LogoutClick last_admin_out))
     = [''/activeAdmins/u1'', ''/activeAdmins'']
   \<and> under_family ''/activeAdmins/u1'' \<and> under_family ''/activeAdmins''
   \<and> DbSet ''/activeAdmins/u1'' (JBool True)
        \<in> set (effects_of init_app (AuthState (Some ''u1'') admin_sign_in))
   \<and> resolveRole ''u1'' (Inr (JObj [(''role'', JStr ''admin'')]))
       = ([DbGet ''/users/u1''], Inr (JStr ''admin''))
   \<and> object_values stored_detections
       = [JObj [(''time'', JNum 1700000000), (''camera'', JNum 0)], JObj [(''name'', JStr ''weapon'')]]
   \<and> renderAdminActivity (Inr stored_detections) True
       = ([SetContent ''adminActivityTpl'', DbGet ''/detections''], Inr ())"
  using database_paths_and_role_default [where evs = "[AuthState (Some ''u1'') admin_sign_in]"
      and ev = "LogoutClick last_admin_out" and st = init_app
      and p = "''/activeAdmins/u1''" and w = "JBool True" and uid = "''u1''"
      and v = "JObj [(''role'', JStr ''admin'')]"]
    database_paths_and_role_default [where v = stored_detections and tbody = True
      and snap = "Inr stored_detections"]
  by (simp add: effects_of_def state_after_def init_app_def offline_def admin_sign_in_def
      last_admin_out_def stored_detections_def handler_defs api_def refreshIdToken_def
      under_family_def activity_row_throws_def Let_def)

text \<open>
  The claim as first stated fails on a user record without a role: no role is stored,
  and resolveRole returns personnel.
\<close>

theorem resolveRole_default_counterexample:
  "js_prop (JObj [(''name'', JStr ''Ann'')]) ''role'' = JUndefined
   \<and> snd (resolveRole ''u1'' (Inr (JObj [(''name'', JStr ''Ann'')]))) = Inr (JStr ''personnel'')"
  by (simp add: resolveRole_def)

end
